theory Spec2Isabelle
  imports Complex_Main "HOL-Library.AList"
begin

section \<open>Data model\<close>

text \<open>
  The monitoring backend passes plain JavaScript objects between its handlers and keeps
  them in a keyed store. Objects become records, string enumerations become datatypes and
  an optional or absent field becomes an \<open>option\<close>. JavaScript numbers are modelled as
  \<open>int\<close> where the code only counts or compares status codes and as \<open>real\<close> where
  it does statistics; \<open>None\<close> in a numeric field stands for \<open>undefined\<close>, a non-number
  or \<open>NaN\<close>, which the handlers all treat alike.
\<close>

datatype severity = NORMAL | WARNING | CRITICAL

datatype alert_state = UP | DOWN | ALERTED

record metric =
  monitorId :: string
  timestamp :: string
  latency :: "real option"
  statusCode :: "int option"
  success :: "bool option"

record monitor =
  mon_id :: "string option"
  url :: "string option"
  mon_name :: "string option"
  failureThreshold :: "int option"
  timeoutMs :: "int option"
  alertWebhookUrl :: "string option"
  alertTo :: "string option"
  emailFrom :: "string option"
  emailApiUrl :: "string option"
  emailApiKey :: "string option"
  createdAt :: "string option"

text \<open>JavaScript truthiness of a possibly absent string: absent and empty are falsy.\<close>

definition truthy :: "string option \<Rightarrow> bool" where
  "truthy x = (case x of None \<Rightarrow> False | Some v \<Rightarrow> v \<noteq> [])"

text \<open>\<open>a || b\<close> on such values.\<close>

definition js_or :: "string option \<Rightarrow> string option \<Rightarrow> string option" where
  "js_or a b = (if truthy a then a else b)"

record stats =
  st_value :: real
  st_mean :: real
  st_stdev :: real
  st_z :: real

record anomaly_result =
  res_monitorId :: string
  res_severity :: severity
  res_reason :: "string option"
  res_samples :: "nat option"
  res_latency :: "stats option"
  res_error_rate :: "stats option"

datatype diagnostic = Recovered | Anomaly anomaly_result

record alert_request =
  alert_monitorId :: string
  alert_severity :: severity
  alert_diagnostic :: "diagnostic option"

datatype event =
    PING_MONITOR string
  | CHECK_ANOMALY string
  | MONITOR_DOWN string
  | MONITOR_RECOVERED string
  | SEND_ALERT alert_request

text \<open>
  The state service, one component per group the handlers use. Metrics are stored under
  the key \<open>monitorId:Date.now()\<close>, kept here as a pair; writing an existing key
  replaces its value.
\<close>

record store =
  monitors :: "string \<rightharpoonup> monitor"
  monitor_metrics :: "((string \<times> int) \<times> metric) list"
  monitor_failures :: "string \<rightharpoonup> int"
  monitor_state :: "string \<rightharpoonup> alert_state"

section \<open>Probe executor (PingMonitor)\<close>

text \<open>
  What \<open>axios.get\<close> did: it resolved with a response of the given status
  (\<open>validateStatus\<close> accepts every status), or it rejected with an error whose
  \<open>error.response.status\<close> is given when the error carries a response.
\<close>

datatype axios_result = Resolved int | Rejected "int option"

record probe =
  response :: axios_result
  t_start :: int
  t_end :: int
  t_iso :: string
  t_key :: int

text \<open>The try/catch around the request: the pair \<open>(statusCode, success)\<close>.\<close>

definition probe_outcome :: "axios_result \<Rightarrow> int \<times> bool" where
  "probe_outcome r =
     (case r of
        Resolved st \<Rightarrow> (st, st < 400)
      | Rejected rs \<Rightarrow> ((case rs of None \<Rightarrow> 0 | Some st \<Rightarrow> st), False))"

definition probe_metric :: "string \<Rightarrow> probe \<Rightarrow> metric" where
  "probe_metric mid p =
     \<lparr> monitorId = mid, timestamp = t_iso p,
       latency = Some (real_of_int (t_end p - t_start p)),
       statusCode = Some (fst (probe_outcome (response p))),
       success = Some (snd (probe_outcome (response p))) \<rparr>"

text \<open>
  The handler, from the lookup of the monitor to the last state update. Calls to the
  state service and to the bus are taken to return: the handler's outer catch, which only
  logs, is not a branch of the model. The publication of the metric to stream subscribers
  that ends the handler changes neither the store nor the emitted events and is left out.
\<close>

definition PingMonitor :: "store \<Rightarrow> string \<Rightarrow> probe \<Rightarrow> store \<times> event list" where
  "PingMonitor s mid p =
     (case monitors s mid of
        None \<Rightarrow> (s, [])
      | Some mon \<Rightarrow>
          if \<not> truthy (url mon) then (s, [])
          else
            let threshold = (case failureThreshold mon of Some n \<Rightarrow> n | None \<Rightarrow> 3);
                s1 = s\<lparr>monitor_metrics :=
                        AList.update (mid, t_key p) (probe_metric mid p) (monitor_metrics s)\<rparr>;
                prevFailures = (case monitor_failures s1 mid of None \<Rightarrow> 0 | Some n \<Rightarrow> n)
            in
              if snd (probe_outcome (response p)) then
                let s2 = (if prevFailures \<noteq> 0
                          then s1\<lparr>monitor_failures := (monitor_failures s1)(mid \<mapsto> 0)\<rparr>
                          else s1);
                    prevState = monitor_state s2 mid
                in
                  if prevState = Some DOWN \<or> prevState = Some ALERTED
                  then (s2\<lparr>monitor_state := (monitor_state s2)(mid \<mapsto> UP)\<rparr>,
                        [MONITOR_RECOVERED mid, CHECK_ANOMALY mid])
                  else (s2, [CHECK_ANOMALY mid])
              else
                let newFailures = prevFailures + 1;
                    s2 = s1\<lparr>monitor_failures := (monitor_failures s1)(mid \<mapsto> newFailures)\<rparr>
                in
                  if newFailures \<ge> threshold then
                    let prevState = monitor_state s2 mid in
                      if prevState \<noteq> Some DOWN \<and> prevState \<noteq> Some ALERTED
                      then (s2\<lparr>monitor_state := (monitor_state s2)(mid \<mapsto> DOWN)\<rparr>,
                            [MONITOR_DOWN mid])
                      else (s2, [])
                  else (s2, []))"

section \<open>Alert state machine (MonitorDown, MonitorRecovered)\<close>

definition MonitorDown :: "store \<Rightarrow> string \<Rightarrow> store \<times> event list" where
  "MonitorDown s mid =
     (let prevState = monitor_state s mid in
        if prevState = Some ALERTED then (s, [])
        else (s\<lparr>monitor_state := (monitor_state s)(mid \<mapsto> ALERTED)\<rparr>,
              [SEND_ALERT \<lparr> alert_monitorId = mid, alert_severity = CRITICAL,
                           alert_diagnostic = None \<rparr>]))"

definition handlerRecovered :: "store \<Rightarrow> string \<Rightarrow> store \<times> event list" where
  "handlerRecovered s mid =
     (let prevState = monitor_state s mid in
        if prevState = None \<or> prevState = Some UP
        then (s\<lparr>monitor_state := (monitor_state s)(mid \<mapsto> UP)\<rparr>, [])
        else (s\<lparr>monitor_failures := (monitor_failures s)(mid \<mapsto> 0),
                 monitor_state := (monitor_state s)(mid \<mapsto> UP)\<rparr>,
              [SEND_ALERT \<lparr> alert_monitorId = mid, alert_severity = NORMAL,
                           alert_diagnostic = Some Recovered \<rparr>]))"

text \<open>
  The event bus hands each emitted event to the handler subscribed to its topic. The
  pipeline of one probe is the probe executor followed by the state machine's handlers
  for the events it emitted, in emission order; events of other topics (CHECK\_ANOMALY,
  SEND\_ALERT) are the pipeline's output.
\<close>

fun deliver :: "store \<Rightarrow> event \<Rightarrow> store \<times> event list" where
  "deliver s (MONITOR_DOWN mid) = MonitorDown s mid"
| "deliver s (MONITOR_RECOVERED mid) = handlerRecovered s mid"
| "deliver s e = (s, [e])"

fun deliver_all :: "store \<Rightarrow> event list \<Rightarrow> store \<times> event list" where
  "deliver_all s [] = (s, [])"
| "deliver_all s (e # es) =
     (let (s1, out1) = deliver s e; (s2, out2) = deliver_all s1 es in (s2, out1 @ out2))"

definition probe_pipeline :: "store \<Rightarrow> string \<Rightarrow> probe \<Rightarrow> store \<times> event list" where
  "probe_pipeline s mid p = (let (s1, evs) = PingMonitor s mid p in deliver_all s1 evs)"

fun run_probes :: "store \<Rightarrow> string \<Rightarrow> probe list \<Rightarrow> store \<times> event list" where
  "run_probes s mid [] = (s, [])"
| "run_probes s mid (p # ps) =
     (let (s1, out1) = probe_pipeline s mid p; (s2, out2) = run_probes s1 mid ps
      in (s2, out1 @ out2))"

definition is_alert :: "event \<Rightarrow> bool" where
  "is_alert e = (case e of SEND_ALERT a \<Rightarrow> True | _ \<Rightarrow> False)"

definition failed_probe :: "probe \<Rightarrow> bool" where
  "failed_probe p = (\<not> snd (probe_outcome (response p)))"

definition down_alert :: "string \<Rightarrow> event" where
  "down_alert mid =
     SEND_ALERT \<lparr> alert_monitorId = mid, alert_severity = CRITICAL, alert_diagnostic = None \<rparr>"

text \<open>Example values used to run the definitions.\<close>

definition example_monitor :: monitor where
  "example_monitor =
     \<lparr> mon_id = Some ''m1'', url = Some ''https://example.org'', mon_name = None,
       failureThreshold = Some 3, timeoutMs = Some 5000, alertWebhookUrl = None,
       alertTo = None, emailFrom = None, emailApiUrl = None, emailApiKey = None,
       createdAt = Some ''2026-01-01T00:00:00.000Z'' \<rparr>"

definition example_store :: "int option \<Rightarrow> alert_state option \<Rightarrow> store" where
  "example_store c st =
     \<lparr> monitors = [''m1'' \<mapsto> example_monitor], monitor_metrics = [],
       monitor_failures = (\<lambda>k. if k = ''m1'' then c else None),
       monitor_state = (\<lambda>k. if k = ''m1'' then st else None) \<rparr>"

definition example_probe :: "axios_result \<Rightarrow> int \<Rightarrow> probe" where
  "example_probe r t =
     \<lparr> response = r, t_start = t, t_end = t + 120, t_iso = ''2026-01-01T00:00:00.000Z'',
       t_key = t + 121 \<rparr>"

definition failures_of :: "store \<Rightarrow> string \<Rightarrow> int" where
  "failures_of s mid = (case monitor_failures s mid of None \<Rightarrow> 0 | Some n \<Rightarrow> n)"

definition threshold_of :: "monitor \<Rightarrow> int" where
  "threshold_of mon = (case failureThreshold mon of Some n \<Rightarrow> n | None \<Rightarrow> 3)"

definition scenario_A :: "probe list" where
  "scenario_A = [example_probe (Resolved 500) 0, example_probe (Rejected None) 60000,
                 example_probe (Resolved 404) 120000]"

section \<open>Anomaly detector (CheckAnomaly)\<close>

text \<open>
  \<open>parse\<close> stands for the JavaScript date parser: the milliseconds of \<open>new Date(ts)\<close>,
  or \<open>None\<close> where \<open>getTime()\<close> is \<open>NaN\<close>. \<open>now\<close> is the handler's clock.
  Statistics are over the reals, where the code computes in double precision; the
  comparisons with 0, 2 and 3 are the code's. A z-score that is exactly 2 or 3 over the
  reals can land just above the bound in doubles (latencies 1, 1, 1, 1, 110 give z = 2
  here), so what is proved about particular windows is proved on windows whose
  arithmetic is exact in both.
\<close>

definition parseISO :: "(string \<Rightarrow> int option) \<Rightarrow> string \<Rightarrow> int option" where
  "parseISO parse ts = (if ts = [] then None else parse ts)"

definition mean :: "real list \<Rightarrow> real" where
  "mean nums = (if length nums = 0 then 0 else foldl (\<lambda>s v. s + v) 0 nums / real (length nums))"

definition pstdev :: "real list \<Rightarrow> real" where
  "pstdev nums =
     (if length nums = 0 then 0
      else let mu = mean nums;
               sumSq = foldl (\<lambda>s v. s + (v - mu) * (v - mu)) 0 nums
           in sqrt (sumSq / real (length nums)))"

definition severityFromZ :: "real \<Rightarrow> severity" where
  "severityFromZ z =
     (let az = \<bar>z\<bar> in if az > 3 then CRITICAL else if az > 2 then WARNING else NORMAL)"

text \<open>\<open>state.getGroup('monitor-metrics')\<close>: every stored metric, of every monitor.\<close>

definition getGroup_metrics :: "store \<Rightarrow> metric list" where
  "getGroup_metrics s = map snd (monitor_metrics s)"

text \<open>
  The selection loop: metrics of this monitor with a parseable timestamp not older than 60
  minutes, each paired with its parsed time (\<open>_ts\<close>).
\<close>

definition window_metrics ::
  "(string \<Rightarrow> int option) \<Rightarrow> int \<Rightarrow> string \<Rightarrow> metric list \<Rightarrow> (metric \<times> int) list" where
  "window_metrics parse now mid all =
     (let windowStart = now - 60 * 60 * 1000 in
        List.map_filter
          (\<lambda>m. if monitorId m \<noteq> mid then None
               else (case parseISO parse (timestamp m) of
                       None \<Rightarrow> None
                     | Some d \<Rightarrow> if d < windowStart then None else Some (m, d)))
          all)"

text \<open>
  The per-minute buckets are a JavaScript \<open>Map\<close>: an association list in insertion
  order, where setting an existing key replaces its value in place.
\<close>

definition minuteKey :: "int \<Rightarrow> int" where
  "minuteKey t = (t div 60000) * 60000"

definition bucket_get :: "(int \<times> (metric \<times> int) list) list \<Rightarrow> int \<Rightarrow> (metric \<times> int) list" where
  "bucket_get buckets k = (case map_of buckets k of None \<Rightarrow> [] | Some arr \<Rightarrow> arr)"

definition build_buckets :: "(metric \<times> int) list \<Rightarrow> (int \<times> (metric \<times> int) list) list" where
  "build_buckets metrics =
     foldl (\<lambda>buckets m.
              let k = minuteKey (snd m); arr = bucket_get buckets k
              in AList.update k (arr @ [m]) buckets)
       [] metrics"

definition bucket_error_rate :: "(metric \<times> int) list \<Rightarrow> real" where
  "bucket_error_rate arr =
     (let failures = foldl (\<lambda>s x. s + (if success (fst x) = Some False then 1 else 0)) (0::real) arr
      in if length arr > 0 then failures / real (length arr) else 0)"

definition zscore :: "real \<Rightarrow> real \<Rightarrow> real \<Rightarrow> real" where
  "zscore v mu sd = (if sd > 0 then (v - mu) / sd else 0)"

definition CheckAnomaly ::
  "(string \<Rightarrow> int option) \<Rightarrow> int \<Rightarrow> store \<Rightarrow> string \<Rightarrow> anomaly_result \<times> event list" where
  "CheckAnomaly parse now s mid =
     (let found = window_metrics parse now mid (getGroup_metrics s) in
      if length found = 0
      then (\<lparr> res_monitorId = mid, res_severity = NORMAL, res_reason = Some ''no_metrics'',
               res_samples = None, res_latency = None, res_error_rate = None \<rparr>, [])
      else
        let metrics = sort_key snd found;
            latencies = List.map_filter (\<lambda>m. latency (fst m)) metrics
        in
        if length latencies = 0
        then (\<lparr> res_monitorId = mid, res_severity = NORMAL, res_reason = Some ''no_latency'',
                 res_samples = None, res_latency = None, res_error_rate = None \<rparr>, [])
        else
          let meanLat = mean latencies;
              stdevLat = pstdev latencies;
              latestLatency = last latencies;
              zLatency = zscore latestLatency meanLat stdevLat;
              buckets = build_buckets metrics;
              minuteKeys = sort (map fst buckets);
              errorRates = map (\<lambda>k. bucket_error_rate (bucket_get buckets k)) minuteKeys;
              latestErrorRate = (if length errorRates > 0 then last errorRates else 0);
              meanEr = mean errorRates;
              stdevEr = pstdev errorRates;
              zError = zscore latestErrorRate meanEr stdevEr;
              sevLatency = severityFromZ zLatency;
              sevError = severityFromZ zError;
              sev = (if sevLatency = CRITICAL \<or> sevError = CRITICAL then CRITICAL
                     else if sevLatency = WARNING \<or> sevError = WARNING then WARNING
                     else NORMAL);
              result = \<lparr> res_monitorId = mid, res_severity = sev, res_reason = None,
                         res_samples = Some (length metrics),
                         res_latency = Some \<lparr> st_value = latestLatency, st_mean = meanLat,
                                               st_stdev = stdevLat, st_z = zLatency \<rparr>,
                         res_error_rate = Some \<lparr> st_value = latestErrorRate, st_mean = meanEr,
                                                  st_stdev = stdevEr, st_z = zError \<rparr> \<rparr>
          in (result,
              if sev \<noteq> NORMAL
              then [SEND_ALERT \<lparr> alert_monitorId = mid, alert_severity = sev,
                                alert_diagnostic = Some (Anomaly result) \<rparr>]
              else []))"

text \<open>The order CRITICAL > WARNING > NORMAL, as a rank.\<close>

fun sev_rank :: "severity \<Rightarrow> nat" where
  "sev_rank NORMAL = 0"
| "sev_rank WARNING = 1"
| "sev_rank CRITICAL = 2"

definition example_parse :: "string \<Rightarrow> int option" where
  "example_parse =
     map_of [(''2026-01-01T00:00:00.000Z'', 1767225600000),
             (''2026-01-01T00:01:00.000Z'', 1767225660000),
             (''2026-01-01T00:02:00.000Z'', 1767225720000)]"

definition example_metric :: "string \<Rightarrow> real option \<Rightarrow> bool \<Rightarrow> metric" where
  "example_metric ts lat ok =
     \<lparr> monitorId = ''m1'', timestamp = ts, latency = lat,
       statusCode = Some (if ok then 200 else 500), success = Some ok \<rparr>"

definition metrics_store :: "metric list \<Rightarrow> store" where
  "metrics_store ms =
     \<lparr> monitors = [''m1'' \<mapsto> example_monitor],
       monitor_metrics = map (\<lambda>(i, m). ((''m1'', int i), m)) (enumerate 0 ms),
       monitor_failures = Map.empty, monitor_state = Map.empty \<rparr>"

definition warning_window :: "metric list" where
  "warning_window =
     replicate 9 (example_metric ''2026-01-01T00:00:00.000Z'' (Some 1) True)
     @ [example_metric ''2026-01-01T00:00:00.000Z'' (Some 11) True]"

definition single_store :: "real option \<Rightarrow> store" where
  "single_store lat = metrics_store [example_metric ''2026-01-01T00:00:00.000Z'' lat True]"

section \<open>Alert router (SendAlert)\<close>

text \<open>
  The process environment variables the router reads, and what the handler does to the
  outside: log lines and HTTP posts. \<open>http u\<close> tells whether \<open>axios.post\<close> to \<open>u\<close>
  resolves; when it does not, the call throws. The text body of an email and the context
  payload of a webhook are not modelled: no branch depends on them.
\<close>

record environment =
  EMAIL_API_URL :: "string option"
  EMAIL_API_KEY :: "string option"
  EMAIL_TO :: "string option"
  EMAIL_FROM :: "string option"
  MONITOR_WEBHOOK_URL :: "string option"

datatype log_level = Info | Warn | Error

record email_post =
  post_url :: string
  post_to :: string
  post_from :: string
  post_bearer :: string
  post_subject :: string

datatype effect = Log log_level string | EmailPost email_post | WebhookPost string

definition str :: "string option \<Rightarrow> string" where
  "str x = (case x of None \<Rightarrow> [] | Some v \<Rightarrow> v)"

text \<open>
  The CRITICAL email step. The flag tells whether the step threw (the post failed), in
  which case control is in the handler's outer catch.
\<close>

definition critical_email :: "environment \<Rightarrow> (string \<Rightarrow> bool) \<Rightarrow> monitor \<Rightarrow> string \<Rightarrow> effect list \<times> bool" where
  "critical_email env http mon mid =
     (let emailApiUrl = js_or (EMAIL_API_URL env) (emailApiUrl mon);
          emailApiKey = js_or (EMAIL_API_KEY env) (emailApiKey mon);
          emailTo = js_or (alertTo mon) (EMAIL_TO env);
          emailFrom = js_or (EMAIL_FROM env) (emailFrom mon)
      in
        if \<not> truthy emailApiUrl \<or> \<not> truthy emailApiKey \<or> \<not> truthy emailTo \<or> \<not> truthy emailFrom
        then ([Log Warn ''Email not sent: missing email configuration (no hardcoded credentials).''], False)
        else
          let post = EmailPost \<lparr> post_url = str emailApiUrl, post_to = str emailTo,
                                  post_from = str emailFrom, post_bearer = str emailApiKey,
                                  post_subject = ''[CRITICAL] Monitor '' @ mid @ '' is down'' \<rparr>
          in if http (str emailApiUrl)
             then ([post, Log Info ''Email alert sent (via EMAIL_API_URL)''], False)
             else ([post], True))"

definition alert_webhook :: "environment \<Rightarrow> (string \<Rightarrow> bool) \<Rightarrow> monitor \<Rightarrow> effect list \<times> bool" where
  "alert_webhook env http mon =
     (let webhookUrl = js_or (alertWebhookUrl mon) (MONITOR_WEBHOOK_URL env) in
        if \<not> truthy webhookUrl
        then ([Log Warn ''Webhook not sent: no webhook URL configured''], False)
        else if http (str webhookUrl)
             then ([WebhookPost (str webhookUrl), Log Info ''Webhook alert sent''], False)
             else ([WebhookPost (str webhookUrl)], True))"

text \<open>The recovery notices; each post has its own try/catch, so nothing is thrown.\<close>

definition recovery_notices :: "environment \<Rightarrow> (string \<Rightarrow> bool) \<Rightarrow> monitor \<Rightarrow> string \<Rightarrow> effect list" where
  "recovery_notices env http mon mid =
     (let emailApiUrl = js_or (EMAIL_API_URL env) (emailApiUrl mon);
          emailApiKey = js_or (EMAIL_API_KEY env) (emailApiKey mon);
          emailTo = js_or (alertTo mon) (EMAIL_TO env);
          emailFrom = js_or (EMAIL_FROM env) (emailFrom mon);
          mail =
            (if truthy emailApiUrl \<and> truthy emailApiKey \<and> truthy emailTo \<and> truthy emailFrom
             then [EmailPost \<lparr> post_url = str emailApiUrl, post_to = str emailTo,
                                post_from = str emailFrom, post_bearer = str emailApiKey,
                                post_subject = ''[RECOVERED] Monitor '' @ mid @ '' recovered'' \<rparr>,
                   if http (str emailApiUrl) then Log Info ''Recovery email sent''
                   else Log Warn ''Failed to send recovery email'']
             else [Log Info ''Recovery email not sent: missing configuration'']);
          webhookUrl = js_or (alertWebhookUrl mon) (MONITOR_WEBHOOK_URL env);
          hook =
            (if \<not> truthy webhookUrl
             then [Log Info ''Recovery webhook not sent: no webhook URL configured'']
             else [WebhookPost (str webhookUrl),
                   if http (str webhookUrl) then Log Info ''Recovery webhook sent''
                   else Log Warn ''Failed to send recovery webhook''])
      in mail @ hook)"

definition SendAlert ::
  "environment \<Rightarrow> (string \<Rightarrow> bool) \<Rightarrow> store \<Rightarrow> alert_request \<Rightarrow> effect list" where
  "SendAlert env http s input =
     (let mid = alert_monitorId input; sev = alert_severity input;
          started = [Log Info ''SendAlert handler started'']
      in
      case monitors s mid of
        None \<Rightarrow> started @ [Log Warn ''Monitor config not found for alert'']
      | Some mon \<Rightarrow>
          let (e1, threw1) = (if sev = CRITICAL then critical_email env http mon mid
                              else ([], False))
          in
          if threw1 then started @ e1 @ [Log Error ''Error routing alert'']
          else
            let (e2, threw2) = (if sev = WARNING \<or> sev = CRITICAL then alert_webhook env http mon
                                else ([], False))
            in
            if threw2 then started @ e1 @ e2 @ [Log Error ''Error routing alert'']
            else
              started @ e1 @ e2 @
                (if sev = NORMAL then
                   (if alert_diagnostic input = Some Recovered
                    then recovery_notices env http mon mid
                    else [Log Info ''Severity NORMAL: no alert routed''])
                 else []))"

definition is_email :: "effect \<Rightarrow> bool" where
  "is_email e = (case e of EmailPost p \<Rightarrow> True | _ \<Rightarrow> False)"

definition example_env :: environment where
  "example_env =
     \<lparr> EMAIL_API_URL = Some ''https://mail.example/send'', EMAIL_API_KEY = Some ''env-key'',
       EMAIL_TO = Some ''oncall@env.example'', EMAIL_FROM = Some ''alerts@env.example'',
       MONITOR_WEBHOOK_URL = None \<rparr>"

definition keyless_env :: environment where
  "keyless_env = example_env\<lparr> EMAIL_API_KEY := None \<rparr>"

definition email_monitor :: monitor where
  "email_monitor =
     example_monitor\<lparr> alertTo := Some ''owner@monitor.example'',
                      emailFrom := Some ''alerts@monitor.example'' \<rparr>"

definition email_store :: store where
  "email_store = (example_store None None)\<lparr> monitors := [''m1'' \<mapsto> email_monitor] \<rparr>"

section \<open>Monitor registration (CreateMonitorAPI)\<close>

text \<open>
  The request body is an unknown JSON value. \<open>JOther\<close> stands for a nested array or
  object, which no field of the schema accepts; a missing property reads as
  \<open>JUndefined\<close>. \<open>is_url\<close> stands for the URL check of the validation library.
\<close>

datatype jval = JUndefined | JNull | JBool bool | JNum real | JStr string | JOther

datatype req_body = NotAnObject | Object "string \<Rightarrow> jval"

record monitor_input =
  in_url :: string
  in_name :: "string option"
  in_failureThreshold :: "int option"
  in_timeoutMs :: "int option"
  in_alertWebhookUrl :: "string option"
  in_alertTo :: "string option"
  in_emailFrom :: "string option"

text \<open>
  The schema's field validators. \<open>None\<close> is a validation issue; for an optional field
  \<open>Some None\<close> is an omitted value.
\<close>

definition z_string_url :: "(string \<Rightarrow> bool) \<Rightarrow> jval \<Rightarrow> string option" where
  "z_string_url is_url v = (case v of JStr x \<Rightarrow> if is_url x then Some x else None | _ \<Rightarrow> None)"

definition z_string_optional :: "jval \<Rightarrow> string option option" where
  "z_string_optional v =
     (case v of JUndefined \<Rightarrow> Some None | JStr x \<Rightarrow> Some (Some x) | _ \<Rightarrow> None)"

definition z_string_url_optional :: "(string \<Rightarrow> bool) \<Rightarrow> jval \<Rightarrow> string option option" where
  "z_string_url_optional is_url v =
     (case v of JUndefined \<Rightarrow> Some None
      | JStr x \<Rightarrow> if is_url x then Some (Some x) else None
      | _ \<Rightarrow> None)"

definition z_int_positive_optional :: "jval \<Rightarrow> int option option" where
  "z_int_positive_optional v =
     (case v of JUndefined \<Rightarrow> Some None
      | JNum x \<Rightarrow> if x = of_int \<lfloor>x\<rfloor> \<and> x > 0 then Some (Some \<lfloor>x\<rfloor>) else None
      | _ \<Rightarrow> None)"

definition field_issues :: "(string \<Rightarrow> bool) \<Rightarrow> (string \<Rightarrow> jval) \<Rightarrow> string list" where
  "field_issues is_url f =
     (if z_string_url is_url (f ''url'') = None then [''url''] else [])
     @ (if z_string_optional (f ''name'') = None then [''name''] else [])
     @ (if z_int_positive_optional (f ''failureThreshold'') = None then [''failureThreshold''] else [])
     @ (if z_int_positive_optional (f ''timeoutMs'') = None then [''timeoutMs''] else [])
     @ (if z_string_url_optional is_url (f ''alertWebhookUrl'') = None then [''alertWebhookUrl''] else [])
     @ (if z_string_optional (f ''alertTo'') = None then [''alertTo''] else [])
     @ (if z_string_optional (f ''emailFrom'') = None then [''emailFrom''] else [])"

definition parse_fields :: "(string \<Rightarrow> bool) \<Rightarrow> (string \<Rightarrow> jval) \<Rightarrow> monitor_input option" where
  "parse_fields is_url f =
     Option.bind (z_string_url is_url (f ''url'')) (\<lambda>u.
     Option.bind (z_string_optional (f ''name'')) (\<lambda>n.
     Option.bind (z_int_positive_optional (f ''failureThreshold'')) (\<lambda>ft.
     Option.bind (z_int_positive_optional (f ''timeoutMs'')) (\<lambda>tm.
     Option.bind (z_string_url_optional is_url (f ''alertWebhookUrl'')) (\<lambda>wh.
     Option.bind (z_string_optional (f ''alertTo'')) (\<lambda>ato.
     Option.bind (z_string_optional (f ''emailFrom'')) (\<lambda>ef.
       Some \<lparr> in_url = u, in_name = n, in_failureThreshold = ft, in_timeoutMs = tm,
              in_alertWebhookUrl = wh, in_alertTo = ato, in_emailFrom = ef \<rparr>)))))))"

text \<open>\<open>inputSchema.safeParse\<close>: the parsed data, or the fields with an issue.\<close>

definition safeParse :: "(string \<Rightarrow> bool) \<Rightarrow> req_body \<Rightarrow> string list + monitor_input" where
  "safeParse is_url b =
     (case b of
        NotAnObject \<Rightarrow> Inl [''_errors'']
      | Object f \<Rightarrow>
          (case parse_fields is_url f of
             Some d \<Rightarrow> Inr d
           | None \<Rightarrow> Inl (field_issues is_url f)))"

datatype response_body = Created string | InvalidInput "string list" | InternalError

record response =
  status :: nat
  body :: response_body

text \<open>
  The handler. \<open>uuid\<close> is what \<open>randomUUID()\<close> returned, \<open>now\<close> the creation time,
  and \<open>set_ok\<close> tells whether \<open>state.set\<close> succeeded (it throws otherwise).
\<close>

definition CreateMonitorAPI ::
  "(string \<Rightarrow> bool) \<Rightarrow> bool \<Rightarrow> string \<Rightarrow> string \<Rightarrow> store \<Rightarrow> req_body \<Rightarrow> response \<times> store" where
  "CreateMonitorAPI is_url set_ok uuid now s b =
     (case safeParse is_url b of
        Inl details \<Rightarrow> (\<lparr> status = 400, body = InvalidInput details \<rparr>, s)
      | Inr d \<Rightarrow>
          let monitorConfig =
                \<lparr> mon_id = Some uuid, url = Some (in_url d), mon_name = in_name d,
                  failureThreshold = Some (case in_failureThreshold d of None \<Rightarrow> 3 | Some n \<Rightarrow> n),
                  timeoutMs = Some (case in_timeoutMs d of None \<Rightarrow> 5000 | Some n \<Rightarrow> n),
                  alertWebhookUrl = in_alertWebhookUrl d, alertTo = in_alertTo d,
                  emailFrom = in_emailFrom d, emailApiUrl = None, emailApiKey = None,
                  createdAt = Some now \<rparr>
          in if set_ok
             then (\<lparr> status = 201, body = Created uuid \<rparr>,
                   s\<lparr> monitors := (monitors s)(uuid \<mapsto> monitorConfig) \<rparr>)
             else (\<lparr> status = 500, body = InternalError \<rparr>, s))"

definition example_is_url :: "string \<Rightarrow> bool" where
  "example_is_url x = (take 8 x = ''https://'' \<and> length x > 8)"

definition example_body :: req_body where
  "example_body = Object (\<lambda>k. if k = ''url'' then JStr ''https://example.org'' else JUndefined)"

definition bad_body :: req_body where
  "bad_body = Object (\<lambda>k. if k = ''url'' then JStr ''https://example.org''
                           else if k = ''failureThreshold'' then JNum 0 else JUndefined)"

section \<open>Status streamer (MonitorStatusSSE)\<close>

text \<open>
  A property of an event payload is absent, \<open>null\<close> or a value; \<open>JSON.stringify\<close>
  leaves absent (\<open>undefined\<close>) properties out.
\<close>

datatype 'a field = Absent | Null | Val 'a

record sse_payload =
  p_monitorId :: "string field"
  p_success :: "bool field"
  p_latency :: "real field"
  p_statusCode :: "int field"
  p_uptimePercent :: "real field"
  p_timestamp :: "string field"
  p_empty :: "bool field"

text \<open>What \<open>rawRes.write\<close> put on the response, and the two interval timers.\<close>

datatype chunk = EventLine | DataLine sse_payload | KeepAliveComment

datatype timer = KeepAliveTimer | PollTimer

text \<open>
  The handler's closure variables (\<open>closed\<close>, \<open>pollInterval\<close>,
  \<open>keepAliveInterval\<close>) and the runtime around them: the response headers, the
  intervals that are set and not cleared, the \<open>clearInterval\<close> calls, the payloads
  handed to \<open>sendEvent\<close>, the chunks written, and the timer callbacks that ran.
\<close>

record connection =
  is_closed :: bool
  pollInterval :: "timer option"
  keepAliveInterval :: "timer option"
  headers :: "(string \<times> string) list"
  running :: "timer list"
  cleared :: "timer list"
  sent :: "sse_payload list"
  written :: "chunk list"
  fired :: "timer list"

definition cleanup :: "connection \<Rightarrow> connection" where
  "cleanup c =
     (if is_closed c then c
      else
        let c1 = c\<lparr> is_closed := True \<rparr>;
            c2 = (case pollInterval c1 of
                    None \<Rightarrow> c1
                  | Some t \<Rightarrow> c1\<lparr> running := removeAll t (running c1),
                                   cleared := cleared c1 @ [t], pollInterval := None \<rparr>);
            c3 = (case keepAliveInterval c2 of
                    None \<Rightarrow> c2
                  | Some t \<Rightarrow> c2\<lparr> running := removeAll t (running c2),
                                   cleared := cleared c2 @ [t], keepAliveInterval := None \<rparr>)
        in c3)"

text \<open>
  \<open>sendEvent\<close> writes the event line and then the data line; either write may throw,
  and the catch runs \<open>cleanup\<close>.
\<close>

datatype send_outcome = BothWritten | SecondThrows | FirstThrows

definition sendEvent :: "send_outcome \<Rightarrow> sse_payload \<Rightarrow> connection \<Rightarrow> connection" where
  "sendEvent w d c =
     (let c1 = c\<lparr> sent := sent c @ [d] \<rparr> in
      case w of
        BothWritten \<Rightarrow> c1\<lparr> written := written c1 @ [EventLine, DataLine d] \<rparr>
      | SecondThrows \<Rightarrow> cleanup (c1\<lparr> written := written c1 @ [EventLine] \<rparr>)
      | FirstThrows \<Rightarrow> cleanup c1)"

record sse_request =
  params_id :: "string option"
  has_raw :: bool

definition initial_event :: "string option \<Rightarrow> string \<Rightarrow> sse_payload" where
  "initial_event mid now =
     \<lparr> p_monitorId = Val (case mid of None \<Rightarrow> [] | Some i \<Rightarrow> i),
       p_success = Null, p_latency = Null, p_statusCode = Absent, p_uptimePercent = Null,
       p_timestamp = Val now, p_empty = Absent \<rparr>"

text \<open>
  The synchronous part of the handler, up to the point where it waits for the client to
  disconnect. Without a usable raw response it parks the request (\<open>None\<close>). \<open>now\<close> is
  the time of the initial event and \<open>w\<close> what happens to its writes.
\<close>

definition connect :: "sse_request \<Rightarrow> string \<Rightarrow> send_outcome \<Rightarrow> connection option" where
  "connect request now w =
     (if \<not> has_raw request then None
      else
        let c0 = \<lparr> is_closed = False, pollInterval = None, keepAliveInterval = None,
                   headers = [(''Content-Type'', ''text/event-stream''),
                              (''Cache-Control'', ''no-cache''),
                              (''Connection'', ''keep-alive''),
                              (''X-Accel-Buffering'', ''no''),
                              (''Access-Control-Allow-Origin'', ''*'')],
                   running = [], cleared = [], sent = [], written = [], fired = [] \<rparr>;
            c1 = sendEvent w (initial_event (params_id request) now) c0;
            c2 = c1\<lparr> keepAliveInterval := Some KeepAliveTimer,
                      running := running c1 @ [KeepAliveTimer] \<rparr>;
            c3 = c2\<lparr> pollInterval := Some PollTimer, running := running c2 @ [PollTimer] \<rparr>
        in Some c3)"

definition opt_field :: "'a option \<Rightarrow> 'a field" where
  "opt_field x = (case x of None \<Rightarrow> Absent | Some v \<Rightarrow> Val v)"

definition null_field :: "'a option \<Rightarrow> 'a field" where
  "null_field x = (case x of None \<Rightarrow> Null | Some v \<Rightarrow> Val v)"

text \<open>
  The metrics of the monitor in the last 60 minutes, oldest first. Every metric that
  reaches the sort has a parseable timestamp, so the default key 0 is never used.
\<close>

definition relevant_metrics ::
  "(string \<Rightarrow> int option) \<Rightarrow> int \<Rightarrow> string option \<Rightarrow> metric list \<Rightarrow> metric list" where
  "relevant_metrics parse now mid allMetrics =
     (let cutoff = now - 60 * 60 * 1000 in
        sort_key (\<lambda>m. case parse (timestamp m) of None \<Rightarrow> 0 | Some t \<Rightarrow> t)
          (filter (\<lambda>m. case parse (timestamp m) of None \<Rightarrow> False | Some t \<Rightarrow> t \<ge> cutoff)
             (filter (\<lambda>m. Some (monitorId m) = mid) allMetrics)))"

definition status_payload :: "string option \<Rightarrow> metric list \<Rightarrow> sse_payload" where
  "status_payload mid relevant =
     (let latest = last relevant;
          successes = length (filter (\<lambda>r. success r = Some True) relevant);
          uptime = (real successes / real (length relevant)) * 100
      in \<lparr> p_monitorId = null_field mid, p_success = opt_field (success latest),
           p_latency = opt_field (latency latest), p_statusCode = opt_field (statusCode latest),
           p_uptimePercent = Val uptime, p_timestamp = Val (timestamp latest),
           p_empty = Absent \<rparr>)"

definition empty_payload :: "string option \<Rightarrow> string \<Rightarrow> sse_payload" where
  "empty_payload mid stamp =
     \<lparr> p_monitorId = null_field mid, p_success = Absent, p_latency = Absent,
       p_statusCode = Absent, p_uptimePercent = Absent, p_timestamp = Val stamp,
       p_empty = Val True \<rparr>"

text \<open>
  What can happen to an open connection: an interval elapses, the immediate poll's
  continuation runs, or the request emits \<open>close\<close>. A poll carries what
  \<open>state.getGroup\<close> returned (\<open>None\<close> when it threw), the clock as a number and as a
  string, and the outcome of the writes.
\<close>

datatype sse_event =
    KeepAliveElapsed bool
  | PollElapsed "metric list option" int string send_outcome
  | ImmediatePoll "metric list option" int send_outcome
  | ClientClose

text \<open>
  One event on a connection. An interval's callback runs only while the interval is set
  and not cleared; each callback is taken as one step, the wait for the store included.
\<close>

fun step ::
  "(string \<Rightarrow> int option) \<Rightarrow> string option \<Rightarrow> connection \<Rightarrow> sse_event \<Rightarrow> connection" where
  "step parse mid c (KeepAliveElapsed ok) =
     (if KeepAliveTimer \<in> set (running c)
      then (let c1 = c\<lparr> fired := fired c @ [KeepAliveTimer] \<rparr> in
              if ok then c1\<lparr> written := written c1 @ [KeepAliveComment] \<rparr> else cleanup c1)
      else c)"
| "step parse mid c (PollElapsed allMetrics now stamp w) =
     (if PollTimer \<in> set (running c)
      then (let c1 = c\<lparr> fired := fired c @ [PollTimer] \<rparr> in
              case allMetrics of
                None \<Rightarrow> c1
              | Some ms \<Rightarrow>
                  let relevant = relevant_metrics parse now mid ms in
                    if length relevant = 0 then sendEvent w (empty_payload mid stamp) c1
                    else sendEvent w (status_payload mid relevant) c1)
      else c)"
| "step parse mid c (ImmediatePoll allMetrics now w) =
     (case allMetrics of
        None \<Rightarrow> c
      | Some ms \<Rightarrow>
          let relevant = relevant_metrics parse now mid ms in
            if length relevant > 0 then sendEvent w (status_payload mid relevant) c
            else c)"
| "step parse mid c ClientClose = cleanup c"

definition run_events ::
  "(string \<Rightarrow> int option) \<Rightarrow> string option \<Rightarrow> connection \<Rightarrow> sse_event list \<Rightarrow> connection" where
  "run_events parse mid c evs = foldl (step parse mid) c evs"

definition is_placeholder :: "sse_payload \<Rightarrow> bool" where
  "is_placeholder d = (p_uptimePercent d = Null)"

definition example_request :: sse_request where
  "example_request = \<lparr> params_id = Some ''m1'', has_raw = True \<rparr>"

text \<open>
  The two shapes of a connection whose timers are accounted for: streaming with both
  intervals set, and torn down with both cleared once, the polling interval first.
\<close>

definition streaming :: "connection \<Rightarrow> bool" where
  "streaming c =
     (\<not> is_closed c \<and> pollInterval c = Some PollTimer
      \<and> keepAliveInterval c = Some KeepAliveTimer
      \<and> running c = [KeepAliveTimer, PollTimer] \<and> cleared c = [])"

definition torn_down :: "connection \<Rightarrow> bool" where
  "torn_down c = (is_closed c \<and> running c = [] \<and> cleared c = [PollTimer, KeepAliveTimer])"

definition example_now :: string where
  "example_now = ''2026-01-01T00:02:00.000Z''"

definition after_failed_start :: "sse_event list" where
  "after_failed_start =
     [ClientClose, KeepAliveElapsed False,
      PollElapsed (Some []) 1767225720000 example_now FirstThrows]"


definition is_placeholder_chunk :: "chunk \<Rightarrow> bool" where
  "is_placeholder_chunk ch = (case ch of DataLine d \<Rightarrow> is_placeholder d | _ \<Rightarrow> False)"

definition poll_then_close :: "sse_event list" where
  "poll_then_close =
     [PollElapsed (Some []) 1767225720000 example_now BothWritten, KeepAliveElapsed True,
      ClientClose, KeepAliveElapsed True]"

section \<open>Verified properties\<close>

subsection \<open>Probe classification\<close>

lemma PingMonitor_records:
  assumes "monitors s mid = Some mon" and "truthy (url mon)"
  shows "map_of (monitor_metrics (fst (PingMonitor s mid p))) (mid, t_key p)
           = Some (probe_metric mid p)"
  using assms
  by (simp add: PingMonitor_def Let_def update_Some_unfold split: option.splits)

text \<open>
  Claim C6. For a monitor that exists and has a URL, the metric the probe executor
  records has \<open>success = true\<close> exactly when the request resolved with a response whose
  status is below 400. A status of 400 or more, and every rejected request (transport
  error or timeout), gives \<open>success = false\<close>; a rejected request without a response gives
  \<open>statusCode = 0\<close>, and a resolved one records the status of its response.
\<close>

theorem probe_success_iff_response_below_400:
  assumes "monitors s mid = Some mon" and "truthy (url mon)"
  shows "\<exists>m. map_of (monitor_metrics (fst (PingMonitor s mid p))) (mid, t_key p) = Some m
           \<and> (success m = Some True \<longleftrightarrow> (\<exists>st. response p = Resolved st \<and> st < 400))
           \<and> (success m = Some False \<longleftrightarrow> \<not> (\<exists>st. response p = Resolved st \<and> st < 400))
           \<and> (\<forall>st. response p = Resolved st \<and> st \<ge> 400 \<longrightarrow> success m = Some False)
           \<and> (\<forall>rs. response p = Rejected rs \<longrightarrow> success m = Some False)
           \<and> (response p = Rejected None \<longrightarrow> statusCode m = Some 0)
           \<and> (\<forall>st. response p = Resolved st \<longrightarrow> statusCode m = Some st)"
proof -
  have rec: "map_of (monitor_metrics (fst (PingMonitor s mid p))) (mid, t_key p)
               = Some (probe_metric mid p)"
    using assms by (rule PingMonitor_records)
  show ?thesis
    unfolding rec
    by (cases "response p") (auto simp: probe_metric_def probe_outcome_def split: option.splits)
qed

theorem probe_success_witness:
  "\<exists>m. map_of (monitor_metrics (fst (PingMonitor (example_store None None) ''m1''
            (example_probe (Resolved 200) 0)))) (''m1'', 121) = Some m
        \<and> success m = Some True \<and> statusCode m = Some 200"
  using probe_success_iff_response_below_400
          [of "example_store None None" "''m1''" example_monitor "example_probe (Resolved 200) 0"]
  by (auto simp: example_store_def example_monitor_def example_probe_def truthy_def)

subsection \<open>Down alerts: once per outage\<close>

text \<open>
  One failed probe through the pipeline: the counter goes up by one; when the new count
  reaches the threshold and the monitor is neither DOWN nor ALERTED, the executor marks it
  DOWN and emits MONITOR\_DOWN, whose handler emits the CRITICAL alert request and marks
  the monitor ALERTED. Otherwise nothing is emitted and the state is kept.
\<close>

lemma pipeline_failed_step:
  assumes "monitors s mid = Some mon" and "truthy (url mon)" and "failed_probe p"
  shows "monitors (fst (probe_pipeline s mid p)) = monitors s"
    and "monitor_failures (fst (probe_pipeline s mid p)) mid = Some (failures_of s mid + 1)"
    and "threshold_of mon \<le> failures_of s mid + 1 \<Longrightarrow> monitor_state s mid \<noteq> Some DOWN \<Longrightarrow>
         monitor_state s mid \<noteq> Some ALERTED \<Longrightarrow>
           monitor_state (fst (probe_pipeline s mid p)) mid = Some ALERTED
           \<and> snd (probe_pipeline s mid p) = [down_alert mid]"
    and "\<not> (threshold_of mon \<le> failures_of s mid + 1) \<or> monitor_state s mid = Some ALERTED \<Longrightarrow>
           monitor_state (fst (probe_pipeline s mid p)) mid = monitor_state s mid
           \<and> snd (probe_pipeline s mid p) = []"
  using assms
  by (auto simp: probe_pipeline_def PingMonitor_def MonitorDown_def Let_def failed_probe_def
        failures_of_def threshold_of_def down_alert_def split: option.splits)

lemma run_failed_probes:
  assumes "monitors s mid = Some mon" and "truthy (url mon)"
    and "\<forall>p\<in>set ps. failed_probe p"
    and "monitor_state s mid \<noteq> Some DOWN"
  shows "snd (run_probes s mid ps) =
           (if monitor_state s mid \<noteq> Some ALERTED \<and> ps \<noteq> []
               \<and> threshold_of mon \<le> failures_of s mid + int (length ps)
            then [down_alert mid] else [])
         \<and> monitors (fst (run_probes s mid ps)) mid = Some mon
         \<and> monitor_state (fst (run_probes s mid ps)) mid =
           (if ps \<noteq> [] \<and> threshold_of mon \<le> failures_of s mid + int (length ps)
            then Some ALERTED else monitor_state s mid)"
  using assms
proof (induction ps arbitrary: s)
  case Nil
  then show ?case by simp
next
  case (Cons p ps)
  let ?s1 = "fst (probe_pipeline s mid p)"
  have fp: "failed_probe p" using Cons.prems(3) by simp
  note step = pipeline_failed_step [OF Cons.prems(1) Cons.prems(2) fp]
  have mon1: "monitors ?s1 mid = Some mon" using step(1) Cons.prems(1) by simp
  have f1: "failures_of ?s1 mid = failures_of s mid + 1"
    using step(2) by (simp add: failures_of_def)
  have rest: "\<forall>q\<in>set ps. failed_probe q" using Cons.prems(3) by simp
  have unfold: "snd (run_probes s mid (p # ps))
                  = snd (probe_pipeline s mid p) @ snd (run_probes ?s1 mid ps)"
    "fst (run_probes s mid (p # ps)) = fst (run_probes ?s1 mid ps)"
    by (simp_all add: split_beta Let_def)
  show ?case
  proof (cases "threshold_of mon \<le> failures_of s mid + 1 \<and> monitor_state s mid \<noteq> Some ALERTED")
    case True
    then have a: "monitor_state ?s1 mid = Some ALERTED"
      and b: "snd (probe_pipeline s mid p) = [down_alert mid]"
      using step(3) Cons.prems(4) by simp_all
    have nd: "monitor_state ?s1 mid \<noteq> Some DOWN" using a by simp
    note ih = Cons.IH [OF mon1 Cons.prems(2) rest nd]
    show ?thesis using unfold b True ih a by simp
  next
    case False
    then have a: "monitor_state ?s1 mid = monitor_state s mid"
      and b: "snd (probe_pipeline s mid p) = []"
      using step(4) by auto
    have nd: "monitor_state ?s1 mid \<noteq> Some DOWN" using a Cons.prems(4) by simp
    note ih = Cons.IH [OF mon1 Cons.prems(2) rest nd]
    show ?thesis using unfold b ih a f1 False by (cases "ps = []") auto
  qed
qed

text \<open>
  Claim C1. For a monitor that exists and has a URL, whose state is neither DOWN nor
  ALERTED, any run of consecutive failed probes emits exactly one CRITICAL alert request
  (with no diagnostic) if the failure count reaches the threshold during the run, and
  nothing otherwise. Once the threshold has been reached the state is ALERTED, and any
  further consecutive failures emit nothing.
\<close>

theorem down_alert_once_per_outage:
  assumes "monitors s mid = Some mon" and "truthy (url mon)"
    and "\<forall>p\<in>set ps. failed_probe p" and "\<forall>q\<in>set qs. failed_probe q"
    and "monitor_state s mid \<noteq> Some DOWN" and "monitor_state s mid \<noteq> Some ALERTED"
  shows "snd (run_probes s mid ps) =
           (if ps \<noteq> [] \<and> threshold_of mon \<le> failures_of s mid + int (length ps)
            then [down_alert mid] else [])
         \<and> (ps \<noteq> [] \<and> threshold_of mon \<le> failures_of s mid + int (length ps) \<longrightarrow>
              monitor_state (fst (run_probes s mid ps)) mid = Some ALERTED
              \<and> snd (run_probes (fst (run_probes s mid ps)) mid qs) = [])"
proof -
  note first = run_failed_probes [OF assms(1) assms(2) assms(3) assms(5)]
  let ?s1 = "fst (run_probes s mid ps)"
  have out: "snd (run_probes s mid ps) =
           (if ps \<noteq> [] \<and> threshold_of mon \<le> failures_of s mid + int (length ps)
            then [down_alert mid] else [])"
    using first assms(6) by simp
  have later: "snd (run_probes ?s1 mid qs) = []"
    and st: "monitor_state ?s1 mid = Some ALERTED"
    if reached: "ps \<noteq> [] \<and> threshold_of mon \<le> failures_of s mid + int (length ps)"
  proof -
    show st: "monitor_state ?s1 mid = Some ALERTED" using first reached by simp
    have mon1: "monitors ?s1 mid = Some mon" using first by simp
    have nd: "monitor_state ?s1 mid \<noteq> Some DOWN" using st by simp
    show "snd (run_probes ?s1 mid qs) = []"
      using run_failed_probes [OF mon1 assms(2) assms(4) nd] st by simp
  qed
  show ?thesis using out later st by blast
qed

text \<open>
  Scenario A: threshold 3, three failed probes give one CRITICAL alert request, the fourth
  gives none.
\<close>

theorem down_alert_once_per_outage_witness:
  "snd (run_probes (example_store None None) ''m1'' scenario_A) = [down_alert ''m1'']
   \<and> monitor_state (fst (run_probes (example_store None None) ''m1'' scenario_A)) ''m1''
       = Some ALERTED
   \<and> snd (run_probes (fst (run_probes (example_store None None) ''m1'' scenario_A)) ''m1''
            [example_probe (Rejected None) 180000]) = []"
  using down_alert_once_per_outage [of "example_store None None" "''m1''" example_monitor
          scenario_A "[example_probe (Rejected None) 180000]"]
  by (simp add: example_store_def example_monitor_def example_probe_def truthy_def
        scenario_A_def failed_probe_def probe_outcome_def threshold_of_def failures_of_def)

subsection \<open>Recovery\<close>

text \<open>
  Claim C2, evaluated on the code. The monitor is ALERTED with three failures counted and
  the next probe succeeds. The executor resets the counter and writes UP before it emits
  MONITOR\_RECOVERED, so the recovery handler reads UP, takes the event for a stale one
  and emits nothing: the pipeline's only output is the CHECK\_ANOMALY request.
\<close>

theorem recovery_alert_suppressed:
  "snd (probe_pipeline (example_store (Some 3) (Some ALERTED)) ''m1''
          (example_probe (Resolved 200) 0)) = [CHECK_ANOMALY ''m1'']
   \<and> monitor_failures (fst (probe_pipeline (example_store (Some 3) (Some ALERTED)) ''m1''
          (example_probe (Resolved 200) 0))) ''m1'' = Some 0
   \<and> monitor_state (fst (probe_pipeline (example_store (Some 3) (Some ALERTED)) ''m1''
          (example_probe (Resolved 200) 0))) ''m1'' = Some UP"
  by (simp add: probe_pipeline_def PingMonitor_def handlerRecovered_def Let_def
        example_store_def example_monitor_def example_probe_def truthy_def probe_outcome_def)

text \<open>The same for every store: a successful probe's pipeline emits no alert request.\<close>

lemma recovery_pipeline_no_alert:
  assumes "monitors s mid = Some mon" and "truthy (url mon)" and "\<not> failed_probe p"
  shows "filter is_alert (snd (probe_pipeline s mid p)) = []"
  using assms
  by (auto simp: probe_pipeline_def PingMonitor_def handlerRecovered_def Let_def
        failed_probe_def is_alert_def split: option.splits)

subsection \<open>Anomaly detector\<close>

lemma mean_single: "mean [v] = v"
  by (simp add: mean_def)

lemma pstdev_single: "pstdev [v] = 0"
  by (simp add: pstdev_def mean_def)

lemma latencies_present:
  assumes "\<exists>x\<in>set found. latency (fst x) \<noteq> None"
  shows "List.map_filter (\<lambda>m. latency (fst m)) (sort_key snd found) \<noteq> []"
proof -
  from assms obtain x where "x \<in> set (sort_key snd found)" and "latency (fst x) \<noteq> None"
    by auto
  then have "filter (\<lambda>m. latency (fst m) \<noteq> None) (sort_key snd found) \<noteq> []"
    by (auto simp: filter_empty_conv)
  then show ?thesis by (simp add: List.map_filter_def)
qed

text \<open>
  Claim C4. A z-score maps to CRITICAL exactly when its absolute value exceeds 3, to WARNING
  exactly when it exceeds 2 but not 3, and to NORMAL otherwise. Whenever the window holds a
  metric with a numeric latency, CheckAnomaly returns both sets of statistics, each z-score
  is the one computed from the value, mean and deviation beside it, the severity of the
  result is the more severe of the two per-dimension severities, and an alert request
  carrying the result is emitted exactly when that severity is not NORMAL.
\<close>

theorem overall_severity:
  "(severityFromZ z = CRITICAL \<longleftrightarrow> \<bar>z\<bar> > 3)
   \<and> (severityFromZ z = WARNING \<longleftrightarrow> 2 < \<bar>z\<bar> \<and> \<bar>z\<bar> \<le> 3)
   \<and> (severityFromZ z = NORMAL \<longleftrightarrow> \<bar>z\<bar> \<le> 2)
   \<and> (\<forall>l e. res_latency (fst (CheckAnomaly parse now s mid)) = Some l
            \<and> res_error_rate (fst (CheckAnomaly parse now s mid)) = Some e
          \<longrightarrow> sev_rank (res_severity (fst (CheckAnomaly parse now s mid)))
                = max (sev_rank (severityFromZ (st_z l))) (sev_rank (severityFromZ (st_z e))))
   \<and> ((\<exists>x\<in>set (window_metrics parse now mid (getGroup_metrics s)). latency (fst x) \<noteq> None)
        \<longrightarrow> (\<exists>l e. res_latency (fst (CheckAnomaly parse now s mid)) = Some l
                \<and> res_error_rate (fst (CheckAnomaly parse now s mid)) = Some e
                \<and> st_z l = zscore (st_value l) (st_mean l) (st_stdev l)
                \<and> st_z e = zscore (st_value e) (st_mean e) (st_stdev e)
                \<and> sev_rank (res_severity (fst (CheckAnomaly parse now s mid)))
                    = max (sev_rank (severityFromZ (st_z l))) (sev_rank (severityFromZ (st_z e)))
                \<and> snd (CheckAnomaly parse now s mid)
                    = (if res_severity (fst (CheckAnomaly parse now s mid)) = NORMAL then []
                       else [SEND_ALERT \<lparr> alert_monitorId = mid,
                               alert_severity = res_severity (fst (CheckAnomaly parse now s mid)),
                               alert_diagnostic = Some (Anomaly (fst (CheckAnomaly parse now s mid))) \<rparr>])))"
proof -
  let ?r = "fst (CheckAnomaly parse now s mid)"
  have ov: "sev_rank (res_severity ?r)
                = max (sev_rank (severityFromZ (st_z l))) (sev_rank (severityFromZ (st_z e)))"
    if "res_latency ?r = Some l" and "res_error_rate ?r = Some e" for l e
  proof -
    let ?a = "severityFromZ (st_z l)" and ?b = "severityFromZ (st_z e)"
    have "res_severity ?r =
            (if ?a = CRITICAL \<or> ?b = CRITICAL then CRITICAL
             else if ?a = WARNING \<or> ?b = WARNING then WARNING else NORMAL)"
      using that by (auto simp: CheckAnomaly_def Let_def split: if_splits)
    then show ?thesis by (cases ?a; cases ?b) simp_all
  qed
  have stats: "\<exists>l e. res_latency ?r = Some l \<and> res_error_rate ?r = Some e
                \<and> st_z l = zscore (st_value l) (st_mean l) (st_stdev l)
                \<and> st_z e = zscore (st_value e) (st_mean e) (st_stdev e)
                \<and> snd (CheckAnomaly parse now s mid)
                    = (if res_severity ?r = NORMAL then []
                       else [SEND_ALERT \<lparr> alert_monitorId = mid,
                               alert_severity = res_severity ?r,
                               alert_diagnostic = Some (Anomaly ?r) \<rparr>])"
    if has: "\<exists>x\<in>set (window_metrics parse now mid (getGroup_metrics s)). latency (fst x) \<noteq> None"
  proof -
    have ne: "window_metrics parse now mid (getGroup_metrics s) \<noteq> []"
      using has by auto
    note lat = latencies_present [OF has]
    show ?thesis using ne lat by (simp add: CheckAnomaly_def Let_def)
  qed
  have main: "\<exists>l e. res_latency ?r = Some l \<and> res_error_rate ?r = Some e
                \<and> st_z l = zscore (st_value l) (st_mean l) (st_stdev l)
                \<and> st_z e = zscore (st_value e) (st_mean e) (st_stdev e)
                \<and> sev_rank (res_severity ?r)
                    = max (sev_rank (severityFromZ (st_z l))) (sev_rank (severityFromZ (st_z e)))
                \<and> snd (CheckAnomaly parse now s mid)
                    = (if res_severity ?r = NORMAL then []
                       else [SEND_ALERT \<lparr> alert_monitorId = mid,
                               alert_severity = res_severity ?r,
                               alert_diagnostic = Some (Anomaly ?r) \<rparr>])"
    if has: "\<exists>x\<in>set (window_metrics parse now mid (getGroup_metrics s)). latency (fst x) \<noteq> None"
  proof -
    from stats [OF has] obtain l e where le: "res_latency ?r = Some l" "res_error_rate ?r = Some e"
      and rest: "st_z l = zscore (st_value l) (st_mean l) (st_stdev l)"
        "st_z e = zscore (st_value e) (st_mean e) (st_stdev e)"
        "snd (CheckAnomaly parse now s mid)
                    = (if res_severity ?r = NORMAL then []
                       else [SEND_ALERT \<lparr> alert_monitorId = mid,
                               alert_severity = res_severity ?r,
                               alert_diagnostic = Some (Anomaly ?r) \<rparr>])"
      by blast
    from ov [OF le] le rest show ?thesis by blast
  qed
  have th: "(severityFromZ z = CRITICAL \<longleftrightarrow> \<bar>z\<bar> > 3)
   \<and> (severityFromZ z = WARNING \<longleftrightarrow> 2 < \<bar>z\<bar> \<and> \<bar>z\<bar> \<le> 3)
   \<and> (severityFromZ z = NORMAL \<longleftrightarrow> \<bar>z\<bar> \<le> 2)"
    by (auto simp: severityFromZ_def Let_def)
  show ?thesis using th ov main by blast
qed

text \<open>
  A window of ten samples in one minute, nine with latency 1 and the latest with latency
  11: mean 2, deviation 3, z = 3, which is WARNING and not CRITICAL. Every intermediate
  value is a small integer, so double arithmetic gives the same numbers.
\<close>

lemma sqrt9: "sqrt 9 = 3"
  by (rule real_sqrt_unique) simp_all


lemma warning_window_found:
  "window_metrics example_parse 1767225720000 ''m1'' (getGroup_metrics (metrics_store warning_window))
     = map (\<lambda>m. (m, 1767225600000)) warning_window"
  by (simp add: window_metrics_def getGroup_metrics_def metrics_store_def warning_window_def
        example_metric_def example_parse_def parseISO_def List.map_filter_def
        enumerate_eq_zip numeral_eq_Suc upt_rec)

lemma warning_window_list:
  "map (\<lambda>m. (m, 1767225600000::int)) warning_window =
     [(example_metric ''2026-01-01T00:00:00.000Z'' (Some 1) True, 1767225600000),
      (example_metric ''2026-01-01T00:00:00.000Z'' (Some 1) True, 1767225600000),
      (example_metric ''2026-01-01T00:00:00.000Z'' (Some 1) True, 1767225600000),
      (example_metric ''2026-01-01T00:00:00.000Z'' (Some 1) True, 1767225600000),
      (example_metric ''2026-01-01T00:00:00.000Z'' (Some 1) True, 1767225600000),
      (example_metric ''2026-01-01T00:00:00.000Z'' (Some 1) True, 1767225600000),
      (example_metric ''2026-01-01T00:00:00.000Z'' (Some 1) True, 1767225600000),
      (example_metric ''2026-01-01T00:00:00.000Z'' (Some 1) True, 1767225600000),
      (example_metric ''2026-01-01T00:00:00.000Z'' (Some 1) True, 1767225600000),
      (example_metric ''2026-01-01T00:00:00.000Z'' (Some 11) True, 1767225600000)]"
  by (simp add: warning_window_def numeral_eq_Suc)

lemma warning_window_latency:
  "res_latency (fst (CheckAnomaly example_parse 1767225720000 (metrics_store warning_window) ''m1''))
      = Some \<lparr> st_value = 11, st_mean = 2, st_stdev = 3, st_z = 3 \<rparr>"
  unfolding CheckAnomaly_def warning_window_found warning_window_list
  by (simp add: example_metric_def Let_def List.map_filter_def
        mean_def pstdev_def zscore_def sqrt9)

lemma warning_window_error_rate:
  "res_error_rate (fst (CheckAnomaly example_parse 1767225720000 (metrics_store warning_window) ''m1''))
      = Some \<lparr> st_value = 0, st_mean = 0, st_stdev = 0, st_z = 0 \<rparr>"
  unfolding CheckAnomaly_def warning_window_found warning_window_list
  by (simp add: example_metric_def Let_def List.map_filter_def
        mean_def pstdev_def zscore_def build_buckets_def bucket_get_def
        bucket_error_rate_def minuteKey_def)

lemma warning_window_has_latency:
  "\<exists>x\<in>set (window_metrics example_parse 1767225720000 ''m1''
              (getGroup_metrics (metrics_store warning_window))). latency (fst x) \<noteq> None"
  unfolding warning_window_found
  by (simp add: warning_window_def example_metric_def)

theorem overall_severity_witness:
  "severityFromZ 3 = WARNING
   \<and> res_latency (fst (CheckAnomaly example_parse 1767225720000
                 (metrics_store warning_window) ''m1''))
       = Some \<lparr> st_value = 11, st_mean = 2, st_stdev = 3, st_z = 3 \<rparr>
   \<and> res_error_rate (fst (CheckAnomaly example_parse 1767225720000
                 (metrics_store warning_window) ''m1''))
       = Some \<lparr> st_value = 0, st_mean = 0, st_stdev = 0, st_z = 0 \<rparr>
   \<and> res_severity (fst (CheckAnomaly example_parse 1767225720000
                 (metrics_store warning_window) ''m1'')) = WARNING
   \<and> snd (CheckAnomaly example_parse 1767225720000 (metrics_store warning_window) ''m1'')
       = [SEND_ALERT \<lparr> alert_monitorId = ''m1'', alert_severity = WARNING,
            alert_diagnostic = Some (Anomaly (fst (CheckAnomaly example_parse 1767225720000
                 (metrics_store warning_window) ''m1''))) \<rparr>]"
proof -
  let ?r = "fst (CheckAnomaly example_parse 1767225720000 (metrics_store warning_window) ''m1'')"
  note th = overall_severity [of 3 example_parse 1767225720000 "metrics_store warning_window" "''m1''"]
  have s3: "severityFromZ 3 = WARNING" and s0: "severityFromZ 0 = NORMAL"
    using th overall_severity [of 0 example_parse 1767225720000 "metrics_store warning_window" "''m1''"]
    by simp_all
  have "sev_rank (res_severity ?r) = 1"
    using th warning_window_latency warning_window_error_rate s3 s0 by simp
  then have sev: "res_severity ?r = WARNING" by (cases "res_severity ?r") simp_all
  have "snd (CheckAnomaly example_parse 1767225720000 (metrics_store warning_window) ''m1'')
       = [SEND_ALERT \<lparr> alert_monitorId = ''m1'', alert_severity = WARNING,
            alert_diagnostic = Some (Anomaly ?r) \<rparr>]"
    using th warning_window_has_latency sev by auto
  then show ?thesis
    using s3 sev warning_window_latency warning_window_error_rate by simp
qed

text \<open>A window of one sample that has a latency: the whole result.\<close>

lemma single_window:
  assumes "window_metrics parse now mid (getGroup_metrics s) = [(m, d)]"
    and "latency m = Some v"
  shows "CheckAnomaly parse now s mid =
           (\<lparr> res_monitorId = mid, res_severity = NORMAL, res_reason = None,
              res_samples = Some 1,
              res_latency = Some \<lparr> st_value = v, st_mean = v, st_stdev = 0, st_z = 0 \<rparr>,
              res_error_rate = Some \<lparr> st_value = bucket_error_rate [(m, d)],
                                       st_mean = bucket_error_rate [(m, d)],
                                       st_stdev = 0, st_z = 0 \<rparr> \<rparr>, [])"
  unfolding CheckAnomaly_def assms(1)
  using assms(2)
  by (simp add: Let_def List.map_filter_def mean_single pstdev_single zscore_def
        severityFromZ_def build_buckets_def bucket_get_def)

text \<open>
  Claim C5, amended. When the window holds exactly one sample and that sample has a numeric
  latency, both deviations and both z-scores are 0, the severity is NORMAL and no alert
  request is emitted.
\<close>

theorem single_sample_is_normal:
  assumes "window_metrics parse now mid (getGroup_metrics s) = [(m, d)]"
    and "latency m = Some v"
  shows "\<exists>l e. res_latency (fst (CheckAnomaly parse now s mid)) = Some l
           \<and> res_error_rate (fst (CheckAnomaly parse now s mid)) = Some e
           \<and> st_stdev l = 0 \<and> st_z l = 0 \<and> st_stdev e = 0 \<and> st_z e = 0
           \<and> res_severity (fst (CheckAnomaly parse now s mid)) = NORMAL
           \<and> snd (CheckAnomaly parse now s mid) = []"
  by (simp add: single_window [OF assms])

lemma single_store_found:
  "window_metrics example_parse 1767225720000 ''m1'' (getGroup_metrics (single_store lat))
     = [(example_metric ''2026-01-01T00:00:00.000Z'' lat True, 1767225600000)]"
  by (simp add: window_metrics_def getGroup_metrics_def metrics_store_def single_store_def
        example_metric_def example_parse_def parseISO_def List.map_filter_def)

theorem single_sample_is_normal_witness:
  "\<exists>l e. res_latency (fst (CheckAnomaly example_parse 1767225720000 (single_store (Some 120)) ''m1'')) = Some l
           \<and> res_error_rate (fst (CheckAnomaly example_parse 1767225720000 (single_store (Some 120)) ''m1'')) = Some e
           \<and> st_stdev l = 0 \<and> st_z l = 0 \<and> st_stdev e = 0 \<and> st_z e = 0
           \<and> res_severity (fst (CheckAnomaly example_parse 1767225720000 (single_store (Some 120)) ''m1'')) = NORMAL
           \<and> snd (CheckAnomaly example_parse 1767225720000 (single_store (Some 120)) ''m1'') = []"
  using single_sample_is_normal [OF single_store_found, of "Some 120" 120]
  by (simp add: example_metric_def)

text \<open>
  Claim C10. When the window is not empty and none of its metrics has a numeric latency,
  CheckAnomaly returns severity NORMAL with reason \<open>no_latency\<close>, carries no statistics
  (no z-score is computed) and emits nothing.
\<close>

theorem no_latency_is_normal:
  assumes "window_metrics parse now mid (getGroup_metrics s) \<noteq> []"
    and "\<forall>x \<in> set (window_metrics parse now mid (getGroup_metrics s)). latency (fst x) = None"
  shows "CheckAnomaly parse now s mid =
           (\<lparr> res_monitorId = mid, res_severity = NORMAL, res_reason = Some ''no_latency'',
              res_samples = None, res_latency = None, res_error_rate = None \<rparr>, [])"
proof -
  let ?found = "window_metrics parse now mid (getGroup_metrics s)"
  have "\<forall>x \<in> set (sort_key snd ?found). latency (fst x) = None"
    using assms(2) by simp
  then have "List.map_filter (\<lambda>m. latency (fst m)) (sort_key snd ?found) = []"
    by (simp add: List.map_filter_def filter_empty_conv)
  then show ?thesis using assms(1) by (simp add: CheckAnomaly_def Let_def)
qed

theorem no_latency_is_normal_witness:
  "CheckAnomaly example_parse 1767225720000 (single_store None) ''m1'' =
           (\<lparr> res_monitorId = ''m1'', res_severity = NORMAL, res_reason = Some ''no_latency'',
              res_samples = None, res_latency = None, res_error_rate = None \<rparr>, [])"
  using no_latency_is_normal [of example_parse 1767225720000 "''m1''" "single_store None"]
  by (simp add: single_store_found example_metric_def)

text \<open>
  Claim C5 as stated fails for a single sample without a latency: the handler returns by
  the \<open>no_latency\<close> branch and computes neither a deviation nor a z-score.
\<close>

theorem single_sample_without_latency:
  "length (window_metrics example_parse 1767225720000 ''m1'' (getGroup_metrics (single_store None))) = 1
   \<and> res_latency (fst (CheckAnomaly example_parse 1767225720000 (single_store None) ''m1'')) = None
   \<and> res_error_rate (fst (CheckAnomaly example_parse 1767225720000 (single_store None) ''m1'')) = None
   \<and> res_reason (fst (CheckAnomaly example_parse 1767225720000 (single_store None) ''m1'')) = Some ''no_latency''"
  unfolding CheckAnomaly_def single_store_found
  by (simp add: Let_def List.map_filter_def example_metric_def)

subsection \<open>Alert router\<close>

text \<open>
  Claim C3, amended. For a CRITICAL alert of an existing monitor, the router posts an email
  exactly when endpoint, credential, recipient and sender are all configured, where the
  endpoint, the credential and the sender are the environment's value when that is set and
  the monitor's own value otherwise, and the recipient is the monitor's \<open>alertTo\<close> when
  that is set and the environment's otherwise. Any email it posts carries these values.
  When one of the four is missing it logs a warning, throws nothing and goes on to the
  webhook step.
\<close>

theorem critical_email_needs_all_four:
  assumes "monitors s mid = Some mon"
  shows "((\<exists>p. EmailPost p \<in> set (SendAlert env http s
              \<lparr> alert_monitorId = mid, alert_severity = CRITICAL, alert_diagnostic = d \<rparr>))
          \<longleftrightarrow> truthy (js_or (EMAIL_API_URL env) (emailApiUrl mon))
               \<and> truthy (js_or (EMAIL_API_KEY env) (emailApiKey mon))
               \<and> truthy (js_or (alertTo mon) (EMAIL_TO env))
               \<and> truthy (js_or (EMAIL_FROM env) (emailFrom mon)))
       \<and> (\<forall>p. EmailPost p \<in> set (SendAlert env http s
              \<lparr> alert_monitorId = mid, alert_severity = CRITICAL, alert_diagnostic = d \<rparr>)
            \<longrightarrow> post_url p = str (js_or (EMAIL_API_URL env) (emailApiUrl mon))
              \<and> post_bearer p = str (js_or (EMAIL_API_KEY env) (emailApiKey mon))
              \<and> post_to p = str (js_or (alertTo mon) (EMAIL_TO env))
              \<and> post_from p = str (js_or (EMAIL_FROM env) (emailFrom mon)))
       \<and> (\<not> (truthy (js_or (EMAIL_API_URL env) (emailApiUrl mon))
               \<and> truthy (js_or (EMAIL_API_KEY env) (emailApiKey mon))
               \<and> truthy (js_or (alertTo mon) (EMAIL_TO env))
               \<and> truthy (js_or (EMAIL_FROM env) (emailFrom mon)))
            \<longrightarrow> SendAlert env http s
                  \<lparr> alert_monitorId = mid, alert_severity = CRITICAL, alert_diagnostic = d \<rparr>
                = [Log Info ''SendAlert handler started'',
                   Log Warn ''Email not sent: missing email configuration (no hardcoded credentials).'']
                  @ fst (alert_webhook env http mon)
                  @ (if snd (alert_webhook env http mon) then [Log Error ''Error routing alert'']
                     else []))"
  using assms
  by (auto simp: SendAlert_def critical_email_def alert_webhook_def Let_def split: if_splits)

theorem critical_email_needs_all_four_witness:
  "(\<exists>p. EmailPost p \<in> set (SendAlert example_env (\<lambda>u. True) email_store
              \<lparr> alert_monitorId = ''m1'', alert_severity = CRITICAL, alert_diagnostic = None \<rparr>)
        \<and> post_url p = ''https://mail.example/send'' \<and> post_bearer p = ''env-key''
        \<and> post_to p = ''owner@monitor.example'' \<and> post_from p = ''alerts@env.example'')
   \<and> SendAlert keyless_env (\<lambda>u. True) email_store
              \<lparr> alert_monitorId = ''m1'', alert_severity = CRITICAL, alert_diagnostic = None \<rparr>
       = [Log Info ''SendAlert handler started'',
          Log Warn ''Email not sent: missing email configuration (no hardcoded credentials).'',
          Log Warn ''Webhook not sent: no webhook URL configured'']"
proof -
  have mon: "monitors email_store ''m1'' = Some email_monitor"
    by (simp add: email_store_def)
  have vals: "js_or (EMAIL_API_URL example_env) (emailApiUrl email_monitor) = Some ''https://mail.example/send''"
    "js_or (EMAIL_API_KEY example_env) (emailApiKey email_monitor) = Some ''env-key''"
    "js_or (alertTo email_monitor) (EMAIL_TO example_env) = Some ''owner@monitor.example''"
    "js_or (EMAIL_FROM example_env) (emailFrom email_monitor) = Some ''alerts@env.example''"
    "js_or (EMAIL_API_KEY keyless_env) (emailApiKey email_monitor) = None"
    "alert_webhook keyless_env (\<lambda>u. True) email_monitor
       = ([Log Warn ''Webhook not sent: no webhook URL configured''], False)"
    by (simp_all add: email_monitor_def example_monitor_def example_env_def keyless_env_def
          js_or_def truthy_def alert_webhook_def)
  note full = critical_email_needs_all_four [OF mon, of example_env "\<lambda>u. True" None]
  note part = critical_email_needs_all_four [OF mon, of keyless_env "\<lambda>u. True" None]
  have "\<exists>p. EmailPost p \<in> set (SendAlert example_env (\<lambda>u. True) email_store
              \<lparr> alert_monitorId = ''m1'', alert_severity = CRITICAL, alert_diagnostic = None \<rparr>)"
    using full by (simp add: vals truthy_def)
  then obtain p where p: "EmailPost p \<in> set (SendAlert example_env (\<lambda>u. True) email_store
              \<lparr> alert_monitorId = ''m1'', alert_severity = CRITICAL, alert_diagnostic = None \<rparr>)"
    by blast
  have "post_url p = ''https://mail.example/send'' \<and> post_bearer p = ''env-key''
        \<and> post_to p = ''owner@monitor.example'' \<and> post_from p = ''alerts@env.example''"
    using full p by (simp add: vals str_def)
  moreover have "SendAlert keyless_env (\<lambda>u. True) email_store
              \<lparr> alert_monitorId = ''m1'', alert_severity = CRITICAL, alert_diagnostic = None \<rparr>
       = [Log Info ''SendAlert handler started'',
          Log Warn ''Email not sent: missing email configuration (no hardcoded credentials).'',
          Log Warn ''Webhook not sent: no webhook URL configured'']"
    using part by (simp add: vals truthy_def)
  ultimately show ?thesis using p by blast
qed

text \<open>
  Claim C3 as stated fails on the sender: with a sender in both places the email goes out
  with the environment's sender, not the monitor's own, which is what a monitor-first
  choice (\<open>monitor value || environment value\<close>) would have given.
\<close>

theorem email_sender_environment_first:
  "filter is_email (SendAlert example_env (\<lambda>u. True) email_store
       \<lparr> alert_monitorId = ''m1'', alert_severity = CRITICAL, alert_diagnostic = None \<rparr>)
     = [EmailPost \<lparr> post_url = ''https://mail.example/send'', post_to = ''owner@monitor.example'',
               post_from = ''alerts@env.example'', post_bearer = ''env-key'',
               post_subject = ''[CRITICAL] Monitor m1 is down'' \<rparr>]
   \<and> emailFrom email_monitor = Some ''alerts@monitor.example''
   \<and> str (js_or (emailFrom email_monitor) (EMAIL_FROM example_env)) = ''alerts@monitor.example''"
  by (simp add: email_store_def email_monitor_def example_monitor_def example_env_def
        example_store_def js_or_def truthy_def str_def alert_webhook_def is_email_def
        SendAlert_def critical_email_def)

subsection \<open>Monitor registration\<close>

lemma parse_fields_issues:
  "parse_fields is_url f = None \<longleftrightarrow> field_issues is_url f \<noteq> []"
  by (auto simp: parse_fields_def field_issues_def Option.bind_eq_None_conv)

lemma safeParse_issues: "safeParse is_url b = Inl details \<Longrightarrow> details \<noteq> []"
  using parse_fields_issues [of is_url]
  by (auto simp: safeParse_def split: req_body.splits option.splits)

text \<open>
  Claim C7, amended. The handler answers 400 exactly when validation fails, with a
  non-empty list of the offending fields and an unchanged store. When validation passes
  it answers 201 with the new monitor's id exactly when the store accepted the write, and
  the stored configuration then has failure threshold 3 and timeout 5000 where they were
  omitted; when the write failed it answers 500 with \<open>internal_error\<close>.
\<close>

theorem create_monitor_responses:
  "(status (fst (CreateMonitorAPI is_url set_ok uuid now s b)) = 400
      \<longleftrightarrow> (\<exists>details. safeParse is_url b = Inl details))
   \<and> (status (fst (CreateMonitorAPI is_url set_ok uuid now s b)) = 201
      \<longleftrightarrow> (\<exists>d. safeParse is_url b = Inr d) \<and> set_ok)
   \<and> (status (fst (CreateMonitorAPI is_url set_ok uuid now s b)) = 500
      \<longleftrightarrow> (\<exists>d. safeParse is_url b = Inr d) \<and> \<not> set_ok)
   \<and> (\<forall>details. safeParse is_url b = Inl details \<longrightarrow>
         CreateMonitorAPI is_url set_ok uuid now s b
           = (\<lparr> status = 400, body = InvalidInput details \<rparr>, s) \<and> details \<noteq> [])
   \<and> (\<forall>d. safeParse is_url b = Inr d \<and> set_ok \<longrightarrow>
         body (fst (CreateMonitorAPI is_url set_ok uuid now s b)) = Created uuid
         \<and> (\<exists>cfg. monitors (snd (CreateMonitorAPI is_url set_ok uuid now s b)) uuid = Some cfg
              \<and> url cfg = Some (in_url d)
              \<and> failureThreshold cfg
                  = Some (case in_failureThreshold d of None \<Rightarrow> 3 | Some n \<Rightarrow> n)
              \<and> timeoutMs cfg = Some (case in_timeoutMs d of None \<Rightarrow> 5000 | Some n \<Rightarrow> n)))
   \<and> (\<forall>d. safeParse is_url b = Inr d \<and> \<not> set_ok \<longrightarrow>
         CreateMonitorAPI is_url set_ok uuid now s b
           = (\<lparr> status = 500, body = InternalError \<rparr>, s))"
proof (cases "safeParse is_url b")
  case (Inl details)
  then show ?thesis
    using safeParse_issues [OF Inl] by (simp add: CreateMonitorAPI_def)
next
  case (Inr d)
  then show ?thesis by (simp add: CreateMonitorAPI_def Let_def)
qed

lemma example_body_valid:
  "safeParse example_is_url example_body =
     Inr \<lparr> in_url = ''https://example.org'', in_name = None, in_failureThreshold = None,
           in_timeoutMs = None, in_alertWebhookUrl = None, in_alertTo = None,
           in_emailFrom = None \<rparr>"
  by (simp add: safeParse_def example_body_def parse_fields_def z_string_url_def
        z_string_optional_def z_string_url_optional_def z_int_positive_optional_def
        example_is_url_def)

lemma bad_body_invalid: "safeParse example_is_url bad_body = Inl [''failureThreshold'']"
  by (simp add: safeParse_def bad_body_def parse_fields_def field_issues_def z_string_url_def
        z_string_optional_def z_string_url_optional_def z_int_positive_optional_def
        example_is_url_def)

theorem create_monitor_responses_witness:
  "body (fst (CreateMonitorAPI example_is_url True ''id-1'' ''2026-01-01T00:00:00.000Z''
                (example_store None None) example_body)) = Created ''id-1''
   \<and> (\<exists>cfg. monitors (snd (CreateMonitorAPI example_is_url True ''id-1''
                ''2026-01-01T00:00:00.000Z'' (example_store None None) example_body)) ''id-1''
               = Some cfg
            \<and> failureThreshold cfg = Some 3 \<and> timeoutMs cfg = Some 5000)
   \<and> fst (CreateMonitorAPI example_is_url True ''id-1'' ''2026-01-01T00:00:00.000Z''
                (example_store None None) bad_body)
       = \<lparr> status = 400, body = InvalidInput [''failureThreshold''] \<rparr>
   \<and> fst (CreateMonitorAPI example_is_url False ''id-1'' ''2026-01-01T00:00:00.000Z''
                (example_store None None) example_body)
       = \<lparr> status = 500, body = InternalError \<rparr>"
  using create_monitor_responses [of example_is_url True "''id-1''" "''2026-01-01T00:00:00.000Z''"
          "example_store None None" example_body]
    create_monitor_responses [of example_is_url True "''id-1''" "''2026-01-01T00:00:00.000Z''"
          "example_store None None" bad_body]
    create_monitor_responses [of example_is_url False "''id-1''" "''2026-01-01T00:00:00.000Z''"
          "example_store None None" example_body]
  by (auto simp: example_body_valid bad_body_invalid)

text \<open>
  Claim C7 as stated fails when the store rejects the write: the input passes validation,
  yet the answer is 500 with \<open>internal_error\<close>, not 201.
\<close>

theorem valid_input_storage_failure_gives_500:
  "(\<exists>d. safeParse example_is_url example_body = Inr d)
   \<and> fst (CreateMonitorAPI example_is_url False ''id-1'' ''2026-01-01T00:00:00.000Z''
            (example_store None None) example_body)
       = \<lparr> status = 500, body = InternalError \<rparr>"
  by (simp add: example_body_valid CreateMonitorAPI_def)

subsection \<open>Status streamer\<close>

lemma cleanup_sent: "sent (cleanup c) = sent c"
  by (simp add: cleanup_def Let_def split: option.splits)

lemma sendEvent_sent: "sent (sendEvent w d c) = sent c @ [d]"
  by (cases w) (simp_all add: sendEvent_def Let_def cleanup_sent)

lemma step_sent:
  "\<exists>ds. sent (step parse mid c e) = sent c @ ds \<and> (\<forall>d\<in>set ds. \<not> is_placeholder d)"
proof (cases e)
  case (KeepAliveElapsed ok)
  then show ?thesis by (simp add: Let_def cleanup_sent)
next
  case (PollElapsed allMetrics now stamp w)
  then show ?thesis
    by (cases allMetrics)
       (simp_all add: Let_def sendEvent_sent is_placeholder_def empty_payload_def
          status_payload_def)
next
  case (ImmediatePoll allMetrics now w)
  then show ?thesis
    by (cases allMetrics)
       (simp_all add: Let_def sendEvent_sent is_placeholder_def status_payload_def)
next
  case ClientClose
  then show ?thesis by (simp add: cleanup_sent)
qed

lemma run_events_sent:
  "\<exists>ds. sent (run_events parse mid c evs) = sent c @ ds \<and> (\<forall>d\<in>set ds. \<not> is_placeholder d)"
proof (induction evs arbitrary: c)
  case Nil
  then show ?case by (simp add: run_events_def)
next
  case (Cons e evs)
  obtain ds1 where d1: "sent (step parse mid c e) = sent c @ ds1"
    and n1: "\<forall>d\<in>set ds1. \<not> is_placeholder d"
    using step_sent by blast
  obtain ds2 where d2: "sent (run_events parse mid (step parse mid c e) evs)
                          = sent (step parse mid c e) @ ds2"
    and n2: "\<forall>d\<in>set ds2. \<not> is_placeholder d"
    using Cons.IH by blast
  have "sent (run_events parse mid c (e # evs)) = sent c @ (ds1 @ ds2)"
    using d1 d2 by (simp add: run_events_def)
  moreover have "\<forall>d\<in>set (ds1 @ ds2). \<not> is_placeholder d"
    using n1 n2 by auto
  ultimately show ?case by blast
qed

lemma connect_sent:
  assumes "has_raw request"
  shows "\<exists>c. connect request now w = Some c \<and> sent c = [initial_event (params_id request) now]"
  using assms by (simp add: connect_def Let_def sendEvent_sent)

lemma cleanup_written: "written (cleanup c) = written c"
  by (simp add: cleanup_def Let_def split: option.splits)

lemma sendEvent_written:
  assumes "\<not> is_placeholder d"
  shows "\<exists>ws. written (sendEvent w d c) = written c @ ws
           \<and> (\<forall>ch\<in>set ws. \<not> is_placeholder_chunk ch)"
  using assms
  by (cases w) (simp_all add: sendEvent_def Let_def cleanup_written is_placeholder_chunk_def)

lemma status_payload_not_placeholder: "\<not> is_placeholder (status_payload mid relevant)"
  by (simp add: is_placeholder_def status_payload_def Let_def)

lemma empty_payload_not_placeholder: "\<not> is_placeholder (empty_payload mid stamp)"
  by (simp add: is_placeholder_def empty_payload_def)

lemma step_written:
  "\<exists>ws. written (step parse mid c e) = written c @ ws
        \<and> (\<forall>ch\<in>set ws. \<not> is_placeholder_chunk ch)"
proof (cases e)
  case (KeepAliveElapsed ok)
  then show ?thesis by (simp add: Let_def cleanup_written is_placeholder_chunk_def)
next
  case (PollElapsed allMetrics now stamp w)
  show ?thesis
  proof (cases "PollTimer \<in> set (running c)")
    case False
    then show ?thesis using PollElapsed by simp
  next
    case True
    let ?c1 = "c\<lparr> fired := fired c @ [PollTimer] \<rparr>"
    have w1: "written ?c1 = written c" by simp
    show ?thesis
    proof (cases allMetrics)
      case None
      then show ?thesis using PollElapsed True by simp
    next
      case (Some ms)
      show ?thesis
        using PollElapsed True Some w1
          sendEvent_written [OF empty_payload_not_placeholder, of w mid stamp ?c1]
          sendEvent_written [OF status_payload_not_placeholder, of w mid
            "relevant_metrics parse now mid ms" ?c1]
        by (simp add: Let_def)
    qed
  qed
next
  case (ImmediatePoll allMetrics now w)
  show ?thesis
  proof (cases allMetrics)
    case None
    then show ?thesis using ImmediatePoll by simp
  next
    case (Some ms)
    show ?thesis
      using ImmediatePoll Some
        sendEvent_written [OF status_payload_not_placeholder, of w mid
          "relevant_metrics parse now mid ms" c]
      by (simp add: Let_def)
  qed
next
  case ClientClose
  then show ?thesis by (simp add: cleanup_written)
qed

lemma run_events_written:
  "\<exists>ws. written (run_events parse mid c evs) = written c @ ws
        \<and> (\<forall>ch\<in>set ws. \<not> is_placeholder_chunk ch)"
proof (induction evs arbitrary: c)
  case Nil
  then show ?case by (simp add: run_events_def)
next
  case (Cons e evs)
  obtain w1 where a: "written (step parse mid c e) = written c @ w1"
    and n1: "\<forall>ch\<in>set w1. \<not> is_placeholder_chunk ch"
    using step_written by blast
  obtain w2 where b: "written (run_events parse mid (step parse mid c e) evs)
                        = written (step parse mid c e) @ w2"
    and n2: "\<forall>ch\<in>set w2. \<not> is_placeholder_chunk ch"
    using Cons.IH by blast
  have "written (run_events parse mid c (e # evs)) = written c @ (w1 @ w2)"
    using a b by (simp add: run_events_def)
  moreover have "\<forall>ch\<in>set (w1 @ w2). \<not> is_placeholder_chunk ch"
    using n1 n2 by auto
  ultimately show ?case by blast
qed

lemma connect_written:
  assumes "has_raw request"
  shows "\<exists>c. connect request now BothWritten = Some c
           \<and> written c = [EventLine, DataLine (initial_event (params_id request) now)]"
  using assms by (simp add: connect_def Let_def sendEvent_def)

text \<open>
  Claim C8, amended. On every connection that is set up, the first payload handed to
  \<open>sendEvent\<close> is the placeholder, and whatever happens later it stays the first and the
  only one with a null uptime. When its two writes succeed, the placeholder is the first
  event on the response, ahead of all polling output, and the only placeholder ever
  written. In it \<open>success\<close>, \<open>latency\<close> and \<open>uptimePercent\<close> are null,
  \<open>statusCode\<close> is left out and \<open>timestamp\<close> is the current time.
\<close>

theorem one_initial_placeholder:
  assumes "has_raw request"
  shows "\<exists>c rest. connect request now w = Some c
           \<and> sent (run_events parse (params_id request) c evs)
               = initial_event (params_id request) now # rest
           \<and> filter is_placeholder (sent (run_events parse (params_id request) c evs))
               = [initial_event (params_id request) now]
           \<and> (w = BothWritten \<longrightarrow>
                (\<exists>more. written (run_events parse (params_id request) c evs)
                          = EventLine # DataLine (initial_event (params_id request) now) # more)
                \<and> filter is_placeholder_chunk
                     (written (run_events parse (params_id request) c evs))
                    = [DataLine (initial_event (params_id request) now)])
           \<and> p_success (initial_event (params_id request) now) = Null
           \<and> p_latency (initial_event (params_id request) now) = Null
           \<and> p_uptimePercent (initial_event (params_id request) now) = Null
           \<and> p_statusCode (initial_event (params_id request) now) = Absent
           \<and> p_timestamp (initial_event (params_id request) now) = Val now"
proof -
  let ?init = "initial_event (params_id request) now"
  obtain c where c: "connect request now w = Some c" and s0: "sent c = [?init]"
    using connect_sent [OF assms] by blast
  let ?c' = "run_events parse (params_id request) c evs"
  obtain ds where ds: "sent ?c' = sent c @ ds" and np: "\<forall>d\<in>set ds. \<not> is_placeholder d"
    using run_events_sent by blast
  have ph: "is_placeholder ?init"
    by (simp add: is_placeholder_def initial_event_def)
  have "filter is_placeholder ds = []" using np by (simp add: filter_empty_conv)
  then have one: "filter is_placeholder (sent ?c') = [?init]"
    using ds s0 ph by simp
  have first: "sent ?c' = ?init # ds"
    using ds s0 by simp
  have wr: "(\<exists>more. written ?c' = EventLine # DataLine ?init # more)
            \<and> filter is_placeholder_chunk (written ?c') = [DataLine ?init]"
    if bw: "w = BothWritten"
  proof -
    have w0: "written c = [EventLine, DataLine ?init]"
      using connect_written [OF assms, of now] c bw by auto
    obtain ws where ws: "written ?c' = written c @ ws"
      and nw: "\<forall>ch\<in>set ws. \<not> is_placeholder_chunk ch"
      using run_events_written by blast
    have "filter is_placeholder_chunk ws = []" using nw by (simp add: filter_empty_conv)
    then show ?thesis using ws w0 ph by (simp add: is_placeholder_chunk_def)
  qed
  have fields: "p_success ?init = Null \<and> p_latency ?init = Null \<and> p_uptimePercent ?init = Null
      \<and> p_statusCode ?init = Absent \<and> p_timestamp ?init = Val now"
    by (simp add: initial_event_def)
  show ?thesis using c first one wr fields by blast
qed

theorem one_initial_placeholder_witness:
  "\<exists>c rest more. connect example_request example_now BothWritten = Some c
           \<and> sent (run_events example_parse (Some ''m1'') c poll_then_close)
               = initial_event (Some ''m1'') example_now # rest
           \<and> filter is_placeholder (sent (run_events example_parse (Some ''m1'') c poll_then_close))
               = [initial_event (Some ''m1'') example_now]
           \<and> written (run_events example_parse (Some ''m1'') c poll_then_close)
               = EventLine # DataLine (initial_event (Some ''m1'') example_now) # more
           \<and> filter is_placeholder_chunk
                (written (run_events example_parse (Some ''m1'') c poll_then_close))
               = [DataLine (initial_event (Some ''m1'') example_now)]
           \<and> written (run_events example_parse (Some ''m1'') c poll_then_close)
               = [EventLine, DataLine (initial_event (Some ''m1'') example_now),
                  EventLine, DataLine (empty_payload (Some ''m1'') example_now),
                  KeepAliveComment]"
proof -
  from one_initial_placeholder [of example_request example_now BothWritten example_parse
         poll_then_close]
  obtain c rest more where c: "connect example_request example_now BothWritten = Some c"
    and a: "sent (run_events example_parse (Some ''m1'') c poll_then_close)
               = initial_event (Some ''m1'') example_now # rest"
      "filter is_placeholder (sent (run_events example_parse (Some ''m1'') c poll_then_close))
               = [initial_event (Some ''m1'') example_now]"
      "written (run_events example_parse (Some ''m1'') c poll_then_close)
               = EventLine # DataLine (initial_event (Some ''m1'') example_now) # more"
      "filter is_placeholder_chunk
                (written (run_events example_parse (Some ''m1'') c poll_then_close))
               = [DataLine (initial_event (Some ''m1'') example_now)]"
    by (auto simp: example_request_def)
  have "written (run_events example_parse (Some ''m1'') c poll_then_close)
               = [EventLine, DataLine (initial_event (Some ''m1'') example_now),
                  EventLine, DataLine (empty_payload (Some ''m1'') example_now),
                  KeepAliveComment]"
    using c
    by (auto simp: connect_def example_request_def sendEvent_def cleanup_def Let_def
          run_events_def poll_then_close_def relevant_metrics_def)
  then show ?thesis using c a by blast
qed

text \<open>
  Claim C8 as stated fails on two of the fields it lists: the placeholder's timestamp is
  the current time, not null, and it has no status code at all.
\<close>

theorem placeholder_timestamp_not_null:
  "(\<exists>c. connect example_request example_now BothWritten = Some c
        \<and> sent c = [initial_event (Some ''m1'') example_now])
   \<and> p_timestamp (initial_event (Some ''m1'') example_now) = Val example_now
   \<and> p_timestamp (initial_event (Some ''m1'') example_now) \<noteq> Null
   \<and> p_statusCode (initial_event (Some ''m1'') example_now) \<noteq> Null"
  by (simp add: connect_def example_request_def sendEvent_def Let_def initial_event_def)

subsection \<open>Teardown of the stream's timers\<close>

text \<open>
  Claim C9, evaluated on the code. The first write of the initial event throws, so
  \<open>cleanup\<close> runs before either interval exists: it sets \<open>closed\<close> and clears nothing.
  The handler then sets both intervals. When the client disconnects, \<open>cleanup\<close> returns
  at once because \<open>closed\<close> is already set, and both intervals keep firing.
\<close>

theorem timers_leak_when_initial_write_fails:
  "map_option (\<lambda>c. (is_closed c, running c, cleared c))
       (connect example_request example_now FirstThrows)
     = Some (True, [KeepAliveTimer, PollTimer], [])
   \<and> map_option (\<lambda>c. (running (run_events example_parse (Some ''m1'') c after_failed_start),
                        cleared (run_events example_parse (Some ''m1'') c after_failed_start),
                        fired (run_events example_parse (Some ''m1'') c after_failed_start)))
        (connect example_request example_now FirstThrows)
     = Some ([KeepAliveTimer, PollTimer], [], [KeepAliveTimer, PollTimer])"
  by (simp add: connect_def example_request_def sendEvent_def cleanup_def Let_def
        run_events_def after_failed_start_def relevant_metrics_def)

text \<open>
  When the initial event is written, teardown works as intended: from then on the
  connection is either streaming or torn down, a torn-down connection stays so, and no
  timer fires on it again.
\<close>

lemma connect_streaming:
  assumes "connect request now BothWritten = Some c"
  shows "streaming c"
  using assms
  by (auto simp: connect_def sendEvent_def Let_def streaming_def split: if_splits)

lemma cleanup_streaming: "streaming c \<Longrightarrow> torn_down (cleanup c) \<and> fired (cleanup c) = fired c"
  by (simp add: streaming_def torn_down_def cleanup_def Let_def)

lemma cleanup_torn_down: "torn_down c \<Longrightarrow> cleanup c = c"
  by (simp add: torn_down_def cleanup_def)

lemma sendEvent_streaming:
  "streaming c \<Longrightarrow> streaming (sendEvent w d c) \<or> torn_down (sendEvent w d c)"
  by (cases w) (simp_all add: sendEvent_def Let_def streaming_def torn_down_def cleanup_def)

lemma sendEvent_torn_down:
  "torn_down c \<Longrightarrow> torn_down (sendEvent w d c) \<and> fired (sendEvent w d c) = fired c"
  by (cases w) (simp_all add: sendEvent_def Let_def torn_down_def cleanup_def)

lemma step_streaming:
  assumes "streaming c"
  shows "streaming (step parse mid c e) \<or> torn_down (step parse mid c e)"
proof (cases e)
  case (KeepAliveElapsed ok)
  have "streaming (c\<lparr> fired := fired c @ [KeepAliveTimer] \<rparr>)"
    using assms by (simp add: streaming_def)
  from cleanup_streaming [OF this] show ?thesis
    using assms KeepAliveElapsed by (auto simp: Let_def streaming_def)
next
  case (PollElapsed allMetrics now stamp w)
  have "streaming (c\<lparr> fired := fired c @ [PollTimer] \<rparr>)"
    using assms by (simp add: streaming_def)
  from sendEvent_streaming [OF this] show ?thesis
    using assms PollElapsed by (cases allMetrics) (auto simp: Let_def streaming_def)
next
  case (ImmediatePoll allMetrics now w)
  then show ?thesis
    using assms sendEvent_streaming [OF assms] by (cases allMetrics) (auto simp: Let_def)
next
  case ClientClose
  then show ?thesis using cleanup_streaming [OF assms] by simp
qed

lemma step_torn_down:
  assumes "torn_down c"
  shows "torn_down (step parse mid c e) \<and> fired (step parse mid c e) = fired c"
proof (cases e)
  case (KeepAliveElapsed ok)
  then show ?thesis using assms by (simp add: torn_down_def)
next
  case (PollElapsed allMetrics now stamp w)
  then show ?thesis using assms by (simp add: torn_down_def)
next
  case (ImmediatePoll allMetrics now w)
  then show ?thesis
    using assms sendEvent_torn_down [OF assms] by (cases allMetrics) (auto simp: Let_def)
next
  case ClientClose
  then show ?thesis using assms by (simp add: cleanup_torn_down)
qed

lemma run_events_torn_down:
  "torn_down c \<Longrightarrow> torn_down (run_events parse mid c evs)
     \<and> fired (run_events parse mid c evs) = fired c"
proof (induction evs arbitrary: c)
  case Nil
  then show ?case by (simp add: run_events_def)
next
  case (Cons e evs)
  from step_torn_down [OF Cons.prems, of parse mid e] Cons.IH [of "step parse mid c e"]
  show ?case by (simp add: run_events_def)
qed

lemma run_events_streaming:
  "streaming c \<Longrightarrow> streaming (run_events parse mid c evs) \<or> torn_down (run_events parse mid c evs)"
proof (induction evs arbitrary: c)
  case Nil
  then show ?case by (simp add: run_events_def)
next
  case (Cons e evs)
  from step_streaming [OF Cons.prems, of parse mid e]
  show ?case
  proof
    assume "streaming (step parse mid c e)"
    from Cons.IH [OF this] show ?thesis by (simp add: run_events_def)
  next
    assume "torn_down (step parse mid c e)"
    from run_events_torn_down [OF this, of parse mid evs] show ?thesis
      by (simp add: run_events_def)
  qed
qed

lemma run_events_append:
  "run_events parse mid c (xs @ ys) = run_events parse mid (run_events parse mid c xs) ys"
  by (simp add: run_events_def)

lemma teardown_after_written_start:
  assumes "connect request now BothWritten = Some c"
  shows "torn_down (run_events parse mid c (before @ ClientClose # later))
         \<and> fired (run_events parse mid c (before @ ClientClose # later))
             = fired (run_events parse mid c before)"
proof -
  let ?c1 = "run_events parse mid c before"
  let ?c2 = "step parse mid ?c1 ClientClose"
  have "streaming ?c1 \<or> torn_down ?c1"
    using run_events_streaming [OF connect_streaming [OF assms]] .
  then have t2: "torn_down ?c2" and f2: "fired ?c2 = fired ?c1"
    using cleanup_streaming [of ?c1] cleanup_torn_down [of ?c1] by auto
  have split: "run_events parse mid c (before @ ClientClose # later) = run_events parse mid ?c2 later"
    by (simp add: run_events_def)
  show ?thesis
    using run_events_torn_down [OF t2, of parse mid later] f2 split by simp
qed

end
